theory Spec2Isabelle
  imports Complex_Main
begin

section \<open>Python strings\<close>

text \<open>
  Strings are character lists. \<open>py_in sub s\<close> is Python's \<open>sub in s\<close> (a contiguous,
  case-sensitive substring test), \<open>startswith s p\<close> is \<open>s.startswith(p)\<close>,
  \<open>py_split sep s\<close> is \<open>s.split(sep)\<close> for a one-character separator and
  \<open>py_join sep xs\<close> is \<open>sep.join(xs)\<close>.
\<close>

fun startswith :: "string \<Rightarrow> string \<Rightarrow> bool" where
  "startswith s [] = True"
| "startswith [] (p # ps) = False"
| "startswith (c # cs) (p # ps) = (c = p \<and> startswith cs ps)"

fun py_in :: "string \<Rightarrow> string \<Rightarrow> bool" where
  "py_in sub [] = (sub = [])"
| "py_in sub (c # cs) = (startswith (c # cs) sub \<or> py_in sub cs)"

fun py_split :: "char \<Rightarrow> string \<Rightarrow> string list" where
  "py_split sep [] = [[]]"
| "py_split sep (c # cs) =
     (if c = sep then [] # py_split sep cs
      else (case py_split sep cs of
              [] \<Rightarrow> [[c]]
            | t # ts \<Rightarrow> (c # t) # ts))"

fun py_join :: "string \<Rightarrow> string list \<Rightarrow> string" where
  "py_join sep [] = []"
| "py_join sep [x] = x"
| "py_join sep (x # y # ys) = x @ sep @ py_join sep (y # ys)"

text \<open>\<open>str(n)\<close> of a natural number and of an integer.\<close>

fun show_nat :: "nat \<Rightarrow> string" where
  "show_nat n =
     (if n < 10 then [char_of (48 + n)]
      else show_nat (n div 10) @ [char_of (48 + n mod 10)])"

declare show_nat.simps [simp del]

definition show_int :: "int \<Rightarrow> string" where
  "show_int i = (if i < 0 then ''-'' @ show_nat (nat (- i)) else show_nat (nat i))"

text \<open>Python truthiness of an optional string: \<open>None\<close> and \<open>""\<close> are falsy.\<close>

fun truthy :: "string option \<Rightarrow> bool" where
  "truthy None = False"
| "truthy (Some s) = (s \<noteq> [])"

section \<open>Costs and upstream calls\<close>

text \<open>
  A cost is the value of the Python float obtained from the billing API's amount string.
  Only comparisons of costs matter below, and on floats other than NaN they agree with the
  comparisons of the rationals the floats denote, so a cost is a \<open>rat\<close>. The literal
  \<open>0.01\<close> denotes the double nearest to one hundredth, which is \<open>5764607523034235 / 2^59\<close>.
\<close>

type_synonym amount = rat

definition float_0_01 :: amount where
  "float_0_01 = 5764607523034235 / 576460752303423488"

text \<open>
  A call that leaves the process (the AWS SDK, the file system, the clock) either raises
  or returns: its outcome is a value of \<open>exn + 'a\<close>. \<open>ClientError\<close> is botocore's
  exception for an error response of a service: it carries \<open>response['Error']['Code']\<close>,
  \<open>response['Error']['Message']\<close>, the name of the operation and, when the retries were
  used up, their number. \<open>OtherError\<close> is any other exception, with its text.
  \<open>exn_str\<close> is \<open>str(e)\<close>; for a client error it is botocore's message template.
\<close>

datatype exn =
    ClientError string string string "nat option"
  | OtherError string

fun exn_str :: "exn \<Rightarrow> string" where
  "exn_str (ClientError code message operation_name retries) =
     ''An error occurred ('' @ code @ '') when calling the '' @ operation_name @ '' operation''
       @ (case retries of
            None \<Rightarrow> []
          | Some n \<Rightarrow> '' (reached max retries: '' @ show_nat n @ '')'')
       @ '': '' @ message"
| "exn_str (OtherError text) = text"

section \<open>Region and usage-type resolver\<close>

text \<open>
  \<open>AWSResourceScanner.find_exact_opensearch_billing_source\<close>
  (\<open>utils/aws_resource_scanner.py\<close>). One group of the cost-and-usage response, grouped by
  SERVICE and USAGE\_TYPE: \<open>Keys[0]\<close>, \<open>Keys[1]\<close> and the blended cost.
\<close>

record usage_group =
  ug_service :: string
  ug_usage_type :: string
  ug_cost :: amount

definition region_map :: "string \<rightharpoonup> string" where
  "region_map = map_of
     [(''USE1'', ''us-east-1''),
      (''USE2'', ''us-east-2''),
      (''USW1'', ''us-west-1''),
      (''USW2'', ''us-west-2''),
      (''EUW1'', ''eu-west-1''),
      (''EUW2'', ''eu-west-2''),
      (''EUC1'', ''eu-central-1'')]"

text \<open>The three locals the loop updates.\<close>

record scan_state =
  opensearch_usage_types :: "string list"
  primary_region :: "string option"
  is_serverless :: bool

definition scan_init :: scan_state where
  "scan_init = \<lparr>opensearch_usage_types = [], primary_region = None, is_serverless = False\<rparr>"

text \<open>The guard of the loop body: \<open>'OpenSearch' in service and cost > 0.01\<close>.\<close>

definition billed_opensearch :: "usage_group \<Rightarrow> bool" where
  "billed_opensearch g \<longleftrightarrow> py_in ''OpenSearch'' (ug_service g) \<and> ug_cost g > float_0_01"

text \<open>\<open>usage_type.split('-')[0] if '-' in usage_type else None\<close>\<close>

definition region_code :: "string \<Rightarrow> string option" where
  "region_code usage_type =
     (if py_in ''-'' usage_type then Some (hd (py_split CHR ''-'' usage_type)) else None)"

text \<open>One iteration of the loop over the groups.\<close>

definition scan_group :: "scan_state \<Rightarrow> usage_group \<Rightarrow> scan_state" where
  "scan_group st g =
     (if billed_opensearch g then
        let usage_type = ug_usage_type g;
            st1 = st\<lparr>opensearch_usage_types := opensearch_usage_types st @ [usage_type]\<rparr>;
            st2 = (if py_in ''Serverless'' usage_type \<or> py_in ''ServerlessOCU'' usage_type
                   then st1\<lparr>is_serverless := True\<rparr> else st1)
        in (case region_code usage_type of
              None \<Rightarrow> st2
            | Some code \<Rightarrow>
                if code \<noteq> [] then
                  (case region_map code of
                     Some r \<Rightarrow> if \<not> truthy (primary_region st2)
                               then st2\<lparr>primary_region := Some r\<rparr> else st2
                   | None \<Rightarrow> st2)
                else st2)
      else st)"

text \<open>The loop over the groups of the response.\<close>

definition scan_groups :: "usage_group list \<Rightarrow> scan_state" where
  "scan_groups groups = foldl scan_group scan_init groups"

text \<open>
  After the loop: \<open>if not primary_region: primary_region = 'us-east-1'\<close>. The region and
  the serverless flag are what the rest of the method decides on.
\<close>

definition resolved_region :: "usage_group list \<Rightarrow> string" where
  "resolved_region groups =
     (case primary_region (scan_groups groups) of
        None \<Rightarrow> ''us-east-1''
      | Some r \<Rightarrow> if r \<noteq> [] then r else ''us-east-1'')"

definition resolved_serverless :: "usage_group list \<Rightarrow> bool" where
  "resolved_serverless groups = is_serverless (scan_groups groups)"

text \<open>\<open>AWSResourceScanner.generate_direct_console_url\<close>\<close>

definition resource_paths :: "string \<rightharpoonup> string" where
  "resource_paths = map_of
     [(''opensearch'', ''opensearch/home''),
      (''bedrock'', ''bedrock/home''),
      (''billing'', ''billing/home''),
      (''cloudtrail'', ''cloudtrail/home'')]"

definition generate_direct_console_url :: "string \<Rightarrow> string \<Rightarrow> string \<Rightarrow> string" where
  "generate_direct_console_url region resource_type resource_id =
     (let base_path = (case resource_paths resource_type of
                         Some p \<Rightarrow> p | None \<Rightarrow> resource_type @ ''/home'');
          url = ''https://console.aws.amazon.com/'' @ base_path @ ''?region='' @ region
      in if resource_id \<noteq> [] \<and> resource_id \<noteq> ''*'' then url @ ''#/'' @ resource_id else url)"

record console_link =
  link_name :: string
  link_url :: string
  link_instructions :: string

text \<open>
  The whole method. \<open>find_recent\<close> is \<open>_find_recent_opensearch_domain\<close>, which looks a
  domain name up in the audit log of a region and returns \<open>None\<close> on any failure of its
  own. \<open>response\<close> is the outcome of the cost-and-usage call: an exception, or the list
  \<open>ResultsByTime\<close> of group lists. Any exception inside the method (the call raising,
  \<open>ResultsByTime\<close> being empty) is caught and the method returns \<open>None\<close>.
\<close>

definition find_exact_opensearch_billing_source ::
    "(string \<Rightarrow> string option) \<Rightarrow> exn + usage_group list list \<Rightarrow> console_link option" where
  "find_exact_opensearch_billing_source find_recent response =
     (case response of
        Inl e \<Rightarrow> None
      | Inr [] \<Rightarrow> None
      | Inr (groups # _) \<Rightarrow>
          (let region = resolved_region groups
           in if resolved_serverless groups then
                Some \<lparr>link_name = ''DIRECT LINK: OpenSearch Serverless in '' @ region,
                      link_url = generate_direct_console_url region ''opensearch-serverless'' ''collections'',
                      link_instructions = ''This direct link will take you to the OpenSearch Serverless Collections in ''
                         @ region @ '' that are incurring charges.''\<rparr>
              else
                (case find_recent region of
                   Some domain_name \<Rightarrow>
                     if domain_name \<noteq> [] then
                       Some \<lparr>link_name = ''DIRECT LINK: OpenSearch Domain '' @ [CHR 0x27] @ domain_name
                                @ [CHR 0x27] @ '' in '' @ region,
                             link_url = generate_direct_console_url region ''opensearch'' domain_name,
                             link_instructions = ''This direct link will take you to the specific OpenSearch domain ''
                                @ [CHR 0x27] @ domain_name @ [CHR 0x27] @ '' in '' @ region @ ''.''\<rparr>
                     else
                       Some \<lparr>link_name = ''DIRECT LINK: OpenSearch Domains in '' @ region,
                             link_url = generate_direct_console_url region ''opensearch'' ''domains'',
                             link_instructions = ''This direct link will take you to all OpenSearch domains in ''
                                @ region @ ''.''\<rparr>
                 | None \<Rightarrow>
                     Some \<lparr>link_name = ''DIRECT LINK: OpenSearch Domains in '' @ region,
                           link_url = generate_direct_console_url region ''opensearch'' ''domains'',
                           link_instructions = ''This direct link will take you to all OpenSearch domains in ''
                              @ region @ ''.''\<rparr>)))"

text \<open>
  The region a single group names: the table entry of its region code, when it has one.
  \<open>region_hit\<close> holds of the groups that both pass the loop's guard and name a region.
\<close>

definition group_region :: "usage_group \<Rightarrow> string option" where
  "group_region g =
     (case region_code (ug_usage_type g) of None \<Rightarrow> None | Some code \<Rightarrow> region_map code)"

definition region_hit :: "usage_group \<Rightarrow> bool" where
  "region_hit g \<longleftrightarrow> billed_opensearch g \<and> group_region g \<noteq> None"

text \<open>
  The specification's measure: the cost that the analysed groups of a region add up to.
  The region with the largest share of the total cost is the one that maximises it.
\<close>

definition region_share :: "usage_group list \<Rightarrow> string \<Rightarrow> amount" where
  "region_share groups r =
     sum_list (map ug_cost (filter (\<lambda>g. billed_opensearch g \<and> group_region g = Some r) groups))"

section \<open>Cost queries of the monitor\<close>

text \<open>
  \<open>AWSCostMonitor\<close> (\<open>services/aws_cost_monitor.py\<close>). A group of a response grouped by
  one dimension carries \<open>Keys[0]\<close> and the blended cost; a response is the list
  \<open>ResultsByTime\<close>, of which \<open>get_service_costs\<close> reads the groups of the first period.
\<close>

record cost_group =
  cg_key :: string
  cg_amount :: amount

record service_entry =
  se_service :: string
  se_cost :: amount
  se_details :: string
  se_status :: string

definition monitor_details :: "string \<Rightarrow> string" where
  "monitor_details service_name =
     (if py_in ''OpenSearch'' service_name then ''Search/OUs, Indexing/DUs, Storage''
      else if py_in ''Skill Builder'' service_name then ''Subscription''
      else if py_in ''Cost Explorer'' service_name then ''API usage charges''
      else if py_in ''Bedrock'' service_name then ''Model inference, tokens, API usage''
      else if py_in ''Claude'' service_name then ''Usage charges''
      else ''Usage charges'')"

text \<open>The loop over the groups: costs below \<open>0.01\<close> are skipped.\<close>

fun monitor_entries :: "cost_group list \<Rightarrow> service_entry list" where
  "monitor_entries [] = []"
| "monitor_entries (g # gs) =
     (if cg_amount g < float_0_01 then monitor_entries gs
      else \<lparr>se_service = cg_key g, se_cost = cg_amount g,
             se_details = monitor_details (cg_key g), se_status = ''Active''\<rparr>
           # monitor_entries gs)"

text \<open>
  \<open>xs.sort(key=..., reverse=True)\<close>: Python's sort is stable, and with \<open>reverse=True\<close>
  elements with equal keys keep their original order; it sorts the reversed list in
  ascending order and reverses the result.
\<close>

definition sort_desc :: "('a \<Rightarrow> amount) \<Rightarrow> 'a list \<Rightarrow> 'a list" where
  "sort_desc key xs = rev (sort_key key (rev xs))"

text \<open>
  The sample data of the \<open>except\<close> branch. Each cost is the double that its decimal
  literal denotes (\<open>19.65\<close>, \<open>12.15\<close>, \<open>3.82\<close>, \<open>0.12\<close>, \<open>0.02\<close>, \<open>0.01\<close>).
\<close>

definition sample_service_costs :: "service_entry list" where
  "sample_service_costs =
     [\<lparr>se_service = ''AWS Skill Builder Individual'', se_cost = 58,
       se_details = ''Subscription'', se_status = ''Canceled on 2025-04-15''\<rparr>,
      \<lparr>se_service = ''Amazon OpenSearch Service'', se_cost = 2765491646182195 / 140737488355328,
       se_details = ''Search/OUs, Indexing/DUs, Storage'', se_status = ''Canceled on 2025-04-15''\<rparr>,
      \<lparr>se_service = ''AWS Cost Explorer (Usage Analytics Service)'', se_cost = 6839841934068941 / 562949953421312,
       se_details = ''API usage charges'', se_status = ''Active''\<rparr>,
      \<lparr>se_service = ''Tax (AWS Services)'', se_cost = 8601875288277647 / 2251799813685248,
       se_details = ''Usage charges'', se_status = ''Active''\<rparr>,
      \<lparr>se_service = ''Amazon Bedrock'', se_cost = 1080863910568919 / 9007199254740992,
       se_details = ''Model inference, tokens, API usage'', se_status = ''Active''\<rparr>,
      \<lparr>se_service = ''Claude 3.7 Sonnet (Amazon Bedrock Edition)'', se_cost = 5764607523034235 / 288230376151711744,
       se_details = ''Usage charges'', se_status = ''Active''\<rparr>,
      \<lparr>se_service = ''Amazon S3'', se_cost = float_0_01,
       se_details = ''Storage, requests'', se_status = ''Active''\<rparr>]"

text \<open>
  \<open>get_date_range\<close>, the same in the monitor and in the adapter:
  \<open>date.today() - timedelta(days=days_back)\<close>. Dates are proleptic ordinals (day 1 is
  0001-01-01, day 3652059 is 9999-12-31) and \<open>today\<close> is the ordinal of today; the two
  \<open>strftime\<close> calls are left out. \<open>timedelta\<close> raises \<open>OverflowError\<close> for a number of
  days outside a C \<open>int\<close> or of a magnitude above 999999999, and the subtraction raises
  it when the result is not a date. Every cost query calls \<open>get_date_range\<close> before its
  \<open>try\<close>, so this exception leaves the query; the definitions of the queries below are
  those of a query whose date range was computed.
\<close>

definition get_date_range :: "int \<Rightarrow> int \<Rightarrow> exn + int \<times> int" where
  "get_date_range today days_back =
     (if days_back > 2147483647 \<or> days_back < - 2147483648
      then Inl (OtherError ''Python int too large to convert to C int'')
      else if \<bar>days_back\<bar> > 999999999
      then Inl (OtherError (''days='' @ show_int days_back @ ''; must have magnitude <= 999999999''))
      else if today - days_back < 1 \<or> today - days_back > 3652059
      then Inl (OtherError ''date value out of range'')
      else Inr (today - days_back, today))"

text \<open>
  \<open>AWSCostMonitor.get_service_costs\<close>. The argument is the outcome of
  \<open>ce_client.get_cost_and_usage\<close>. An exception of the call, and the \<open>IndexError\<close> of
  \<open>response['ResultsByTime'][0]\<close> on an empty list, are caught by \<open>except Exception\<close>,
  which returns the sample data.
\<close>

definition monitor_get_service_costs :: "exn + cost_group list list \<Rightarrow> service_entry list" where
  "monitor_get_service_costs response =
     (case response of
        Inl e \<Rightarrow> sample_service_costs
      | Inr [] \<Rightarrow> sample_service_costs
      | Inr (groups # _) \<Rightarrow> sort_desc se_cost (monitor_entries groups))"

text \<open>
  \<open>AWSCostMonitor.get_daily_costs\<close>. \<open>date_of i\<close> is the date \<open>i\<close> days before today as
  \<open>%Y-%m-%d\<close>. A period of the ungrouped daily response carries its start date and its
  total. When the call raises, the method returns sample data for the days
  \<open>days_back, ..., 1\<close> before today.
\<close>

record total_period =
  tp_start :: string
  tp_amount :: amount

definition sample_daily_cost :: "int \<Rightarrow> amount" where
  "sample_daily_cost i = (if i mod 5 = 0 then 975 / 100 else 3 + of_int (i mod 3))"

definition monitor_get_daily_costs ::
    "(int \<Rightarrow> string) \<Rightarrow> int \<Rightarrow> exn + total_period list \<Rightarrow> (string \<times> amount \<times> string) list" where
  "monitor_get_daily_costs date_of days_back response =
     (case response of
        Inr periods \<Rightarrow> map (\<lambda>p. (tp_start p, tp_amount p, ''AWS Services'')) periods
      | Inl e \<Rightarrow>
          map (\<lambda>i. (date_of i, sample_daily_cost i, ''AWS Services'')) (rev [1..days_back]))"

text \<open>
  \<open>analyze_costs\<close> of \<open>api.py\<close>: the services of the monitor whose cost exceeds the
  threshold (the function also prints them).
\<close>

definition api_analyze_costs :: "exn + cost_group list list \<Rightarrow> amount \<Rightarrow> service_entry list" where
  "api_analyze_costs response threshold =
     filter (\<lambda>service. se_cost service > threshold) (monitor_get_service_costs response)"

text \<open>
  \<open>CostAnalysisService.analyze_costs\<close> (\<open>domain/services.py\<close>). \<open>services\<close> is what the
  cost data port's \<open>get_service_costs\<close> returned and \<open>cost_of\<close> reads \<open>service["cost"]\<close>.
\<close>

definition service_analyze_costs :: "('e \<Rightarrow> amount) \<Rightarrow> 'e list \<Rightarrow> amount \<Rightarrow> 'e list" where
  "service_analyze_costs cost_of services threshold =
     filter (\<lambda>service. cost_of service > threshold) services"

section \<open>Command line\<close>

text \<open>
  What the two entry points read from outside: the outcome of rendering the report, the
  exception of \<open>boto3.client('ce')\<close> in \<open>AWSCostMonitor()\<close> if it raises, the ordinal
  of today, and the outcome of the cost-and-usage call.
\<close>

record cli_env =
  report_outcome :: "exn + string"
  ce_client_failure :: "exn option"
  env_today :: int
  ce_response :: "exn + cost_group list list"

text \<open>
  \<open>analyze_costs\<close> of \<open>api.py\<close> as a call: it builds the monitor, and
  \<open>get_service_costs\<close> computes the date range before its \<open>try\<close>; either can raise.
  The rest is \<open>api_analyze_costs\<close>.
\<close>

definition analyze_costs_call :: "cli_env \<Rightarrow> amount \<Rightarrow> int \<Rightarrow> exn + service_entry list" where
  "analyze_costs_call env threshold days_back =
     (case ce_client_failure env of
        Some e \<Rightarrow> Inl e
      | None \<Rightarrow>
          (case get_date_range (env_today env) days_back of
             Inl e \<Rightarrow> Inl e
           | Inr dates \<Rightarrow> Inr (api_analyze_costs (ce_response env) threshold)))"

text \<open>
  \<open>main\<close> of \<open>cli.py\<close>, after \<open>parse_args\<close>. \<open>main\<close> has no handler: an exception
  of a command leaves \<open>main\<close> (\<open>Inl\<close>); otherwise \<open>main\<close> returns the exit code.
\<close>

datatype command =
    Report int "string option" bool
  | Analyze amount int
  | NoCommand

definition cli_main :: "cli_env \<Rightarrow> command \<Rightarrow> exn + int" where
  "cli_main env cmd =
     (case cmd of
        Report days output open_report \<Rightarrow>
          (case report_outcome env of Inl e \<Rightarrow> Inl e | Inr report_path \<Rightarrow> Inr 0)
      | Analyze threshold days \<Rightarrow>
          (case analyze_costs_call env threshold days of
             Inl e \<Rightarrow> Inl e
           | Inr result \<Rightarrow> Inr (if result \<noteq> [] then 0 else 1))
      | NoCommand \<Rightarrow> Inr 1)"

text \<open>
  \<open>CLIAdapter.run\<close> of \<open>adapters/cli_adapter.py\<close>, the \<open>main\<close> that the package
  exports, after \<open>parse_args\<close>. Each command runs inside a \<open>try\<close>. The body of
  \<open>report\<close> calls the domain service and then \<open>webbrowser.open\<close> when the flag is set
  and the path is not empty (\<open>browser_failure\<close> is the exception of that call, if it
  raises). The body of \<open>analyze\<close> calls the domain service and prints one line for each
  service it returned; \<open>line_of\<close> formats the line from \<open>service['service']\<close> and
  \<open>service['cost']\<close> and raises when a key is missing.
\<close>

definition report_body :: "exn + string \<Rightarrow> exn option \<Rightarrow> bool \<Rightarrow> exn + unit" where
  "report_body generated browser_failure open_flag =
     (case generated of
        Inl e \<Rightarrow> Inl e
      | Inr report_path \<Rightarrow>
          if open_flag \<and> report_path \<noteq> [] then
            (case browser_failure of Some e \<Rightarrow> Inl e | None \<Rightarrow> Inr ())
          else Inr ())"

fun print_services :: "('e \<Rightarrow> exn + string) \<Rightarrow> 'e list \<Rightarrow> exn + unit" where
  "print_services line_of [] = Inr ()"
| "print_services line_of (service # rest) =
     (case line_of service of
        Inl e \<Rightarrow> Inl e
      | Inr line \<Rightarrow> print_services line_of rest)"

definition analyze_body :: "('e \<Rightarrow> exn + string) \<Rightarrow> exn + 'e list \<Rightarrow> exn + unit" where
  "analyze_body line_of analysis =
     (case analysis of
        Inl e \<Rightarrow> Inl e
      | Inr high_cost_services \<Rightarrow> print_services line_of high_cost_services)"

definition cli_adapter_run ::
    "exn + string \<Rightarrow> exn option \<Rightarrow> ('e \<Rightarrow> exn + string) \<Rightarrow> exn + 'e list \<Rightarrow> command \<Rightarrow> int" where
  "cli_adapter_run generated browser_failure line_of analysis cmd =
     (case cmd of
        Report days output open_flag \<Rightarrow>
          (case report_body generated browser_failure open_flag of
             Inl e \<Rightarrow> 1
           | Inr done \<Rightarrow> 0)
      | Analyze threshold days \<Rightarrow>
          (case analyze_body line_of analysis of
             Inl e \<Rightarrow> 1
           | Inr done \<Rightarrow> 0)
      | NoCommand \<Rightarrow> 1)"

section \<open>Cost queries of the adapter\<close>

text \<open>\<open>AWSCostAdapter\<close> (\<open>adapters/aws_cost_adapter.py\<close>).\<close>

record service_period =
  sp_start :: string
  sp_groups :: "cost_group list"

text \<open>
  The text for one day: the services with a positive cost, the first three joined by
  commas. \<open>fmt2\<close> is the float format \<open>:.2f\<close>.
\<close>

definition service_breakdown :: "(amount \<Rightarrow> string) \<Rightarrow> cost_group list \<Rightarrow> string" where
  "service_breakdown fmt2 groups =
     (let services = map (\<lambda>g. cg_key g @ '' ($'' @ fmt2 (cg_amount g) @ '')'')
                         (filter (\<lambda>g. cg_amount g > 0) groups);
          joined = py_join '', '' (take 3 services);
          more = (if length services > 3
                  then joined @ '', +'' @ show_nat (length services - 3) @ '' more''
                  else joined)
      in if more = [] then ''No significant costs'' else more)"

text \<open>
  \<open>AWSCostAdapter.get_daily_costs\<close>. The two arguments are the outcomes of the two
  cost-and-usage calls, the second made only when the first returned. An exception of
  either is caught and the method returns the empty list.
\<close>

definition adapter_get_daily_costs ::
    "(amount \<Rightarrow> string) \<Rightarrow> exn + total_period list \<Rightarrow> exn + service_period list
       \<Rightarrow> (string \<times> amount \<times> string) list" where
  "adapter_get_daily_costs fmt2 response_total response_by_service =
     (case response_total of
        Inl e \<Rightarrow> []
      | Inr totals \<Rightarrow>
          (case response_by_service of
             Inl e \<Rightarrow> []
           | Inr periods \<Rightarrow>
               (let service_breakdown_by_date =
                      foldl (\<lambda>m p. m(sp_start p \<mapsto> service_breakdown fmt2 (sp_groups p)))
                            Map.empty periods
                in map (\<lambda>t. (tp_start t, tp_amount t,
                              (case service_breakdown_by_date (tp_start t) of
                                 Some d \<Rightarrow> d | None \<Rightarrow> ''AWS Services'')))
                       totals)))"

text \<open>
  \<open>_get_service_details\<close>. Its two \<open>try\<close> blocks call \<open>scan_for_resources\<close>, which
  \<open>AWSResourceScanner\<close> does not define; the \<open>AttributeError\<close> is swallowed by the bare
  \<open>except\<close>, so each block falls through to the fixed text after it.
\<close>

definition get_service_details :: "string \<Rightarrow> string" where
  "get_service_details service_name =
     (if py_in ''OpenSearch'' service_name then ''Domain storage and instance hours''
      else if py_in ''Skill Builder'' service_name then ''Learning subscription''
      else if py_in ''Cost Explorer'' service_name then ''Usage and API requests''
      else if py_in ''Bedrock'' service_name then ''Model inference, tokens, API usage''
      else if py_in ''Claude'' service_name then ''Token usage and API calls''
      else if py_in ''Lambda'' service_name then ''Compute time and requests''
      else if py_in ''S3'' service_name then ''Storage and requests''
      else if py_in ''EC2'' service_name then ''Compute instances and related services''
      else if py_in ''DynamoDB'' service_name then ''NoSQL database usage''
      else if py_in ''CloudWatch'' service_name then ''Monitoring and observability''
      else if py_in ''Tax'' service_name then ''Applicable taxes on services''
      else if py_in ''Simple'' service_name then
        (if py_in ''Storage'' service_name then ''Storage usage''
         else if py_in ''Notification'' service_name then ''Notification delivery''
         else ''Service usage'')
      else if py_in ''Data Transfer'' service_name then ''Data transfer and bandwidth''
      else ''Usage charges'')"

record cancel_url =
  cu_name :: string
  cu_url :: "string option"
  cu_instructions :: string

record adapter_entry =
  ae_name :: string
  ae_cost :: amount
  ae_details :: string
  ae_status :: string
  ae_cancelled_on :: "string option"
  ae_console_url :: string
  ae_cancellation_urls :: "cancel_url list option"

text \<open>An entry of \<open>get_all_billing_services\<close>: \<open>name\<close>, \<open>cost\<close> and \<open>link\<close>.\<close>

record billing_service =
  bs_name :: string
  bs_cost :: amount
  bs_link :: string

text \<open>
  The collaborators of \<open>get_service_costs\<close> that talk to other services and handle their
  own failures: \<open>scanner.get_console_url\<close>, \<open>get_all_billing_services\<close> and
  \<open>get_service_specific_cancellation_urls\<close>.
\<close>

record adapter_env =
  get_console_url :: "string \<Rightarrow> string"
  get_all_billing_services :: "billing_service list"
  get_cancellation_urls :: "string \<Rightarrow> cancel_url list"

definition clean_name :: "string \<Rightarrow> string" where
  "clean_name service_name =
     (if startswith service_name ''Amazon '' \<or> startswith service_name ''AWS '' then service_name
      else if py_in ''Skill Builder'' service_name then ''AWS Skill Builder''
      else ''AWS '' @ service_name)"

definition service_status :: "string \<Rightarrow> string \<times> string option" where
  "service_status service_name =
     (if py_in ''Claude'' service_name \<or> py_in ''Bedrock'' service_name
         \<or> service_name = ''Amazon OpenSearch Service''
         \<or> service_name = ''Amazon Simple Storage Service''
      then (''Cancelled'', Some ''2025-04-21'')
      else if service_name = ''Amazon Rekognition'' \<or> service_name = ''Amazon Transcribe''
      then (''Pay-As-You-Go'', None)
      else if service_name = ''Tax'' then (''Required'', None)
      else (''Active'', None))"

text \<open>
  The locals of the method that outlive a loop: the list built so far, the set of names
  seen, and \<open>clean_service_name\<close>, which is unbound (\<open>None\<close>) until the first loop has
  assigned it.
\<close>

record gather_state =
  gs_services :: "adapter_entry list"
  gs_service_set :: "string set"
  gs_clean_name :: "string option"

definition gather_init :: gather_state where
  "gather_init = \<lparr>gs_services = [], gs_service_set = {}, gs_clean_name = None\<rparr>"

text \<open>First loop: the groups of the response grouped by service.\<close>

definition gather_service :: "adapter_env \<Rightarrow> gather_state \<Rightarrow> cost_group \<Rightarrow> gather_state" where
  "gather_service env st g =
     (if cg_amount g \<le> 0 then st
      else
        let service_name = cg_key g;
            clean_service_name = clean_name service_name;
            (status, cancelled_on) = service_status service_name
        in \<lparr>gs_services = gs_services st @
               [\<lparr>ae_name = clean_service_name, ae_cost = cg_amount g,
                 ae_details = get_service_details clean_service_name,
                 ae_status = status, ae_cancelled_on = cancelled_on,
                 ae_console_url = get_console_url env clean_service_name,
                 ae_cancellation_urls = None\<rparr>],
            gs_service_set = insert clean_service_name (gs_service_set st),
            gs_clean_name = Some clean_service_name\<rparr>)"

definition tax_names :: "string list" where
  "tax_names = [''Tax'', ''AWS Tax'', ''Tax on AWS services'']"

text \<open>
  Second loop: the groups of the response grouped by record type. Reading the unbound
  \<open>clean_service_name\<close> raises \<open>UnboundLocalError\<close>.
\<close>

fun gather_records :: "adapter_env \<Rightarrow> gather_state \<Rightarrow> cost_group list \<Rightarrow> exn + gather_state" where
  "gather_records env st [] = Inr st"
| "gather_records env st (g # gs) =
     (if cg_amount g \<le> 0 then gather_records env st gs
      else if py_in ''Cost Explorer'' (cg_key g) \<or> py_in ''Usage Analytics'' (cg_key g)
              \<or> py_in ''Billing'' (cg_key g) then
        (if ''AWS Cost Explorer'' \<in> gs_service_set st then gather_records env st gs
         else
           (case gs_clean_name st of
              None \<Rightarrow> Inl (OtherError ''UnboundLocalError'')
            | Some clean_service_name \<Rightarrow>
                gather_records env
                  (st\<lparr>gs_services := gs_services st @
                        [\<lparr>ae_name = ''AWS Cost Explorer'', ae_cost = cg_amount g,
                          ae_details = ''API requests and analysis'',
                          ae_status = (if clean_service_name \<in> set tax_names
                                       then ''Required'' else ''Active''),
                          ae_cancelled_on = None,
                          ae_console_url = get_console_url env ''AWS Cost Explorer'',
                          ae_cancellation_urls = None\<rparr>],
                      gs_service_set := insert ''AWS Cost Explorer'' (gs_service_set st)\<rparr>)
                  gs))
      else gather_records env st gs)"

text \<open>
  Third loop, inside its own \<open>try\<close>: the services of the billing console that are not in
  the list yet (\<open>existing\<close> is computed once, before the loop). An
  \<open>UnboundLocalError\<close> ends the loop and is caught there; what was added before stays.
  The loop also registers the link of a new service in \<open>_service_paths\<close>.
\<close>

fun add_billing_services ::
    "adapter_env \<Rightarrow> string set \<Rightarrow> string option
       \<Rightarrow> adapter_entry list \<times> (string \<rightharpoonup> string) \<Rightarrow> billing_service list
       \<Rightarrow> adapter_entry list \<times> (string \<rightharpoonup> string)" where
  "add_billing_services env existing clean (services, paths) [] = (services, paths)"
| "add_billing_services env existing clean (services, paths) (b # bs) =
     (if bs_name b \<noteq> [] \<and> bs_name b \<notin> existing then
        (case clean of
           None \<Rightarrow> (services, paths)
         | Some clean_service_name \<Rightarrow>
             add_billing_services env existing clean
               (services @
                  [\<lparr>ae_name = bs_name b, ae_cost = bs_cost b,
                    ae_details = get_service_details (bs_name b),
                    ae_status = (if clean_service_name \<in> set tax_names
                                 then ''Required'' else ''Active''),
                    ae_cancelled_on = None,
                    ae_console_url = get_console_url env (bs_name b),
                    ae_cancellation_urls = None\<rparr>],
                if bs_link b \<noteq> [] \<and> paths (bs_name b) = None
                then paths(bs_name b \<mapsto> bs_link b) else paths)
               bs)
      else add_billing_services env existing clean (services, paths) bs)"

text \<open>\<open>_enrich_service_data_with_nova_sdk\<close>\<close>

fun enrich_service_data ::
    "adapter_env \<Rightarrow> (string \<rightharpoonup> string) \<Rightarrow> adapter_entry list
       \<Rightarrow> adapter_entry list \<times> (string \<rightharpoonup> string)" where
  "enrich_service_data env paths [] = ([], paths)"
| "enrich_service_data env paths (service # rest) =
     (let service_name = ae_name service
      in if service_name \<noteq> [] then
           (case get_cancellation_urls env service_name of
              [] \<Rightarrow>
                (let (rest', paths') = enrich_service_data env paths rest
                 in (service # rest', paths'))
            | first # others \<Rightarrow>
                (let paths1 = (case cu_url first of
                                 None \<Rightarrow> paths
                               | Some url \<Rightarrow>
                                   if url \<noteq> [] \<and> paths service_name = None
                                   then paths(service_name \<mapsto> url) else paths);
                     (rest', paths') = enrich_service_data env paths1 rest
                 in (service\<lparr>ae_cancellation_urls := Some (first # others)\<rparr> # rest', paths')))
         else
           (let (rest', paths') = enrich_service_data env paths rest
            in (service # rest', paths')))"

text \<open>
  \<open>AWSCostAdapter.get_service_costs\<close>. \<open>paths\<close> is \<open>self._service_paths\<close>, returned
  updated next to the list. An exception of either cost-and-usage call, an empty
  \<open>ResultsByTime\<close> and the \<open>UnboundLocalError\<close> of the second loop are caught by the
  outer \<open>except Exception\<close>, which returns the empty list.
\<close>

definition adapter_get_service_costs ::
    "adapter_env \<Rightarrow> (string \<rightharpoonup> string)
       \<Rightarrow> exn + cost_group list list \<Rightarrow> exn + cost_group list list
       \<Rightarrow> adapter_entry list \<times> (string \<rightharpoonup> string)" where
  "adapter_get_service_costs env paths response_by_service response_by_record =
     (case response_by_service of
        Inl e \<Rightarrow> ([], paths)
      | Inr by_service \<Rightarrow>
          (case response_by_record of
             Inl e \<Rightarrow> ([], paths)
           | Inr by_record \<Rightarrow>
               (case (by_service, by_record) of
                  (groups # _, record_groups # _) \<Rightarrow>
                    (case gather_records env (foldl (gather_service env) gather_init groups)
                            record_groups of
                       Inl e \<Rightarrow> ([], paths)
                     | Inr st \<Rightarrow>
                         (let existing = ae_name ` set (gs_services st);
                              (services, paths1) =
                                 add_billing_services env existing (gs_clean_name st)
                                   (gs_services st, paths) (get_all_billing_services env);
                              (enriched, paths2) = enrich_service_data env paths1 services
                          in (sort_desc ae_cost enriched, paths2)))
                | _ \<Rightarrow> ([], paths))))"

section \<open>Cancellation dispatcher\<close>

text \<open>
  \<open>ServiceCancellationAPI\<close> (\<open>api/service_cancellation.py\<close>). The responses of the SDK
  and the details a handler returns are JSON-like dictionaries.
\<close>

datatype json =
    JNull
  | JStr string
  | JList "json list"
  | JDict "(string \<times> json) list"

type_synonym jdict = "(string \<times> json) list"

text \<open>\<open>d.get(k, default)\<close>\<close>

definition jget :: "jdict \<Rightarrow> string \<Rightarrow> json \<Rightarrow> json" where
  "jget d k dflt = (case map_of d k of Some v \<Rightarrow> v | None \<Rightarrow> dflt)"

text \<open>An optional string as a JSON value: \<open>None\<close> is \<open>null\<close>.\<close>

fun jopt :: "string option \<Rightarrow> json" where
  "jopt None = JNull"
| "jopt (Some s) = JStr s"

text \<open>
  The calls a handler can issue on a client. \<open>DeleteObjects\<close> carries the bucket and the
  list of \<open>{'Key': ...}\<close> objects.
\<close>

datatype api_call =
    ListDomainNames
  | DeleteDomain string
  | ListCollections
  | DeleteCollection string
  | DescribeClusters
  | DeleteCluster string
  | ListFunctions
  | DeleteFunction string
  | DescribeInstances
  | TerminateInstances string
  | DescribeDBInstances
  | DeleteDBInstance string
  | ListBuckets
  | ListObjectsV2 string
  | DeleteObjects string "json list"
  | DeleteBucket string

text \<open>The calls that delete or terminate a resource.\<close>

fun destructive :: "api_call \<Rightarrow> bool" where
  "destructive (DeleteDomain _) = True"
| "destructive (DeleteCollection _) = True"
| "destructive (DeleteCluster _) = True"
| "destructive (DeleteFunction _) = True"
| "destructive (TerminateInstances _) = True"
| "destructive (DeleteDBInstance _) = True"
| "destructive (DeleteObjects _ _) = True"
| "destructive (DeleteBucket _) = True"
| "destructive _ = False"

text \<open>
  The environment of a session: \<open>new_client region service\<close> is the exception that
  \<open>session.client(service)\<close> raises on the session of the region, if it raises (botocore
  rejects a malformed region name there, before any request); \<open>call\<close> answers a call on a
  client with an exception or a response. \<open>boto3.Session(region_name=region)\<close> itself
  only stores the region. A handler returns the calls it issued, in order, and either the
  exception that left it or its details.
\<close>

record aws =
  new_client :: "string \<Rightarrow> string \<Rightarrow> exn option"
  call :: "api_call \<Rightarrow> exn + jdict"

type_synonym handler = "aws \<Rightarrow> string option \<Rightarrow> string \<Rightarrow> api_call list \<times> (exn + jdict)"

text \<open>\<open>client = session.client(service)\<close>, followed by the rest of the handler.\<close>

definition with_client ::
    "aws \<Rightarrow> string \<Rightarrow> string \<Rightarrow> api_call list \<times> (exn + jdict) \<Rightarrow> api_call list \<times> (exn + jdict)" where
  "with_client aws region service rest =
     (case new_client aws region service of
        Some e \<Rightarrow> ([], Inl e)
      | None \<Rightarrow> rest)"

text \<open>
  The texts of the exceptions that Python raises by itself are those of CPython 3.11.
  \<open>quoted s\<close> is \<open>s\<close> between single quotes, as in the text of a \<open>KeyError\<close>.
\<close>

definition quoted :: "string \<Rightarrow> string" where
  "quoted s = [CHR 0x27] @ s @ [CHR 0x27]"

fun py_type_name :: "json \<Rightarrow> string" where
  "py_type_name JNull = ''NoneType''"
| "py_type_name (JStr s) = ''str''"
| "py_type_name (JList xs) = ''list''"
| "py_type_name (JDict d) = ''dict''"

definition cancel_opensearch :: handler where
  "cancel_opensearch aws domain_name region =
     with_client aws region ''opensearch''
       (if \<not> truthy domain_name then
          (case call aws ListDomainNames of
             Inl e \<Rightarrow> ([ListDomainNames], Inl e)
           | Inr domains \<Rightarrow>
               (case map_of domains ''DomainNames'' of
                  None \<Rightarrow> ([ListDomainNames], Inl (OtherError (quoted ''DomainNames'')))
                | Some names \<Rightarrow>
                    ([ListDomainNames],
                     Inr [(''domains'', names), (''action'', JStr ''list_only'')])))
        else
          (case call aws (DeleteDomain (the domain_name)) of
             Inl e \<Rightarrow> ([DeleteDomain (the domain_name)], Inl e)
           | Inr response \<Rightarrow>
               ([DeleteDomain (the domain_name)],
                Inr [(''domain_name'', jopt domain_name),
                     (''deletion_status'', jget response ''DomainStatus'' (JDict [])),
                     (''cancellation_time'', jget response ''DeletionDate'' (JStr '''')),
                     (''action'', JStr ''deleted'')])))"

definition cancel_opensearch_serverless :: handler where
  "cancel_opensearch_serverless aws collection_id region =
     with_client aws region ''opensearchserverless''
       (if \<not> truthy collection_id then
          (case call aws ListCollections of
             Inl e \<Rightarrow> ([ListCollections], Inl e)
           | Inr collections \<Rightarrow>
               ([ListCollections],
                Inr [(''collections'', jget collections ''collectionSummaries'' (JList [])),
                     (''action'', JStr ''list_only'')]))
        else
          (case call aws (DeleteCollection (the collection_id)) of
             Inl e \<Rightarrow> ([DeleteCollection (the collection_id)], Inl e)
           | Inr response \<Rightarrow>
               ([DeleteCollection (the collection_id)],
                Inr [(''collection_id'', jopt collection_id),
                     (''deletion_status'', jget response ''status'' (JStr '''')),
                     (''cancellation_time'', jget response ''deleteDate'' (JStr '''')),
                     (''action'', JStr ''deleted'')])))"

text \<open>
  \<open>response.get(outer, {}).get(inner, "")\<close>: the second \<open>get\<close> raises
  \<open>AttributeError\<close> when the value under \<open>outer\<close> is not a dictionary.
\<close>

definition jget_nested :: "jdict \<Rightarrow> string \<Rightarrow> string \<Rightarrow> exn + json" where
  "jget_nested response outer inner =
     (case jget response outer (JDict []) of
        JDict d \<Rightarrow> Inr (jget d inner (JStr ''''))
      | v \<Rightarrow> Inl (OtherError (quoted (py_type_name v) @ '' object has no attribute ''
                              @ quoted ''get'')))"

definition cancel_redshift :: handler where
  "cancel_redshift aws cluster_id region =
     with_client aws region ''redshift''
       (if \<not> truthy cluster_id then
          (case call aws DescribeClusters of
             Inl e \<Rightarrow> ([DescribeClusters], Inl e)
           | Inr clusters \<Rightarrow>
               ([DescribeClusters],
                Inr [(''clusters'', jget clusters ''Clusters'' (JList [])),
                     (''action'', JStr ''list_only'')]))
        else
          (case call aws (DeleteCluster (the cluster_id)) of
             Inl e \<Rightarrow> ([DeleteCluster (the cluster_id)], Inl e)
           | Inr response \<Rightarrow>
               (case jget_nested response ''Cluster'' ''ClusterStatus'' of
                  Inl e \<Rightarrow> ([DeleteCluster (the cluster_id)], Inl e)
                | Inr status \<Rightarrow>
                    ([DeleteCluster (the cluster_id)],
                     Inr [(''cluster_id'', jopt cluster_id),
                          (''deletion_status'', status),
                          (''action'', JStr ''deleted'')]))))"

definition cancel_lambda :: handler where
  "cancel_lambda aws function_name region =
     with_client aws region ''lambda''
       (if \<not> truthy function_name then
          (case call aws ListFunctions of
             Inl e \<Rightarrow> ([ListFunctions], Inl e)
           | Inr functions \<Rightarrow>
               ([ListFunctions],
                Inr [(''functions'', jget functions ''Functions'' (JList [])),
                     (''action'', JStr ''list_only'')]))
        else
          (case call aws (DeleteFunction (the function_name)) of
             Inl e \<Rightarrow> ([DeleteFunction (the function_name)], Inl e)
           | Inr response \<Rightarrow>
               ([DeleteFunction (the function_name)],
                Inr [(''function_name'', jopt function_name),
                     (''action'', JStr ''deleted'')])))"

definition cancel_ec2 :: handler where
  "cancel_ec2 aws instance_id region =
     with_client aws region ''ec2''
       (if \<not> truthy instance_id then
          (case call aws DescribeInstances of
             Inl e \<Rightarrow> ([DescribeInstances], Inl e)
           | Inr instances \<Rightarrow>
               ([DescribeInstances],
                Inr [(''instances'', jget instances ''Reservations'' (JList [])),
                     (''action'', JStr ''list_only'')]))
        else
          (case call aws (TerminateInstances (the instance_id)) of
             Inl e \<Rightarrow> ([TerminateInstances (the instance_id)], Inl e)
           | Inr response \<Rightarrow>
               ([TerminateInstances (the instance_id)],
                Inr [(''instance_id'', jopt instance_id),
                     (''termination_status'', jget response ''TerminatingInstances'' (JList [])),
                     (''action'', JStr ''terminated'')])))"

definition cancel_rds :: handler where
  "cancel_rds aws db_instance_id region =
     with_client aws region ''rds''
       (if \<not> truthy db_instance_id then
          (case call aws DescribeDBInstances of
             Inl e \<Rightarrow> ([DescribeDBInstances], Inl e)
           | Inr instances \<Rightarrow>
               ([DescribeDBInstances],
                Inr [(''db_instances'', jget instances ''DBInstances'' (JList [])),
                     (''action'', JStr ''list_only'')]))
        else
          (case call aws (DeleteDBInstance (the db_instance_id)) of
             Inl e \<Rightarrow> ([DeleteDBInstance (the db_instance_id)], Inl e)
           | Inr response \<Rightarrow>
               (case jget_nested response ''DBInstance'' ''DBInstanceStatus'' of
                  Inl e \<Rightarrow> ([DeleteDBInstance (the db_instance_id)], Inl e)
                | Inr status \<Rightarrow>
                    ([DeleteDBInstance (the db_instance_id)],
                     Inr [(''db_instance_id'', jopt db_instance_id),
                          (''deletion_status'', status),
                          (''action'', JStr ''deleted'')]))))"

text \<open>
  \<open>[{'Key': obj['Key']} for obj in objects['Contents']]\<close>. Iterating a list gives its
  items, a string its characters, a dictionary its keys; \<open>None\<close> is not iterable.
  \<open>obj['Key']\<close> is the value under \<open>Key\<close> of a dictionary and raises otherwise.
\<close>

fun iterate_json :: "json \<Rightarrow> exn + json list" where
  "iterate_json (JList xs) = Inr xs"
| "iterate_json (JStr s) = Inr (map (\<lambda>c. JStr [c]) s)"
| "iterate_json (JDict d) = Inr (map (\<lambda>kv. JStr (fst kv)) d)"
| "iterate_json JNull = Inl (OtherError (quoted ''NoneType'' @ '' object is not iterable''))"

fun subscript_key :: "json \<Rightarrow> exn + json" where
  "subscript_key (JDict obj) =
     (case map_of obj ''Key'' of
        None \<Rightarrow> Inl (OtherError (quoted ''Key''))
      | Some k \<Rightarrow> Inr k)"
| "subscript_key (JStr s) =
     Inl (OtherError (''string indices must be integers, not '' @ quoted ''str''))"
| "subscript_key (JList xs) =
     Inl (OtherError ''list indices must be integers or slices, not str'')"
| "subscript_key JNull =
     Inl (OtherError (quoted ''NoneType'' @ '' object is not subscriptable''))"

fun object_keys :: "json list \<Rightarrow> exn + json list" where
  "object_keys [] = Inr []"
| "object_keys (obj # rest) =
     (case subscript_key obj of
        Inl e \<Rightarrow> Inl e
      | Inr k \<Rightarrow>
          (case object_keys rest of
             Inl e \<Rightarrow> Inl e
           | Inr ks \<Rightarrow> Inr (JDict [(''Key'', k)] # ks)))"

text \<open>
  The \<open>except ClientError\<close> inside \<open>_cancel_s3\<close>: a client error of one of its calls
  becomes a returned dictionary with the action \<open>error\<close>; any other exception leaves
  the handler.
\<close>

fun s3_error :: "string option \<Rightarrow> exn \<Rightarrow> exn + jdict" where
  "s3_error bucket_name (ClientError code message operation_name retries) =
     Inr [(''bucket_name'', jopt bucket_name),
          (''error'', JStr (exn_str (ClientError code message operation_name retries))),
          (''action'', JStr ''error'')]"
| "s3_error bucket_name (OtherError text) = Inl (OtherError text)"

definition s3_delete_bucket :: "aws \<Rightarrow> string option \<Rightarrow> api_call list \<Rightarrow> api_call list \<times> (exn + jdict)" where
  "s3_delete_bucket aws bucket_name issued =
     (case call aws (DeleteBucket (the bucket_name)) of
        Inl e \<Rightarrow> (issued @ [DeleteBucket (the bucket_name)], s3_error bucket_name e)
      | Inr response \<Rightarrow>
          (issued @ [DeleteBucket (the bucket_name)],
           Inr [(''bucket_name'', jopt bucket_name), (''action'', JStr ''deleted'')]))"

definition cancel_s3 :: handler where
  "cancel_s3 aws bucket_name region =
     with_client aws region ''s3''
       (if \<not> truthy bucket_name then
          (case call aws ListBuckets of
             Inl e \<Rightarrow> ([ListBuckets], Inl e)
           | Inr buckets \<Rightarrow>
               ([ListBuckets],
                Inr [(''buckets'', jget buckets ''Buckets'' (JList [])),
                     (''action'', JStr ''list_only'')]))
        else
          (let b = the bucket_name
           in case call aws (ListObjectsV2 b) of
                Inl e \<Rightarrow> ([ListObjectsV2 b], s3_error bucket_name e)
              | Inr objects \<Rightarrow>
                  (case map_of objects ''Contents'' of
                     None \<Rightarrow> s3_delete_bucket aws bucket_name [ListObjectsV2 b]
                   | Some contents \<Rightarrow>
                       (case iterate_json contents of
                          Inl e \<Rightarrow> ([ListObjectsV2 b], Inl e)
                        | Inr objs \<Rightarrow>
                            (case object_keys objs of
                               Inl e \<Rightarrow> ([ListObjectsV2 b], Inl e)
                             | Inr keys \<Rightarrow>
                                 (case call aws (DeleteObjects b keys) of
                                    Inl e \<Rightarrow>
                                      ([ListObjectsV2 b, DeleteObjects b keys],
                                       s3_error bucket_name e)
                                  | Inr deleted \<Rightarrow>
                                      s3_delete_bucket aws bucket_name
                                        [ListObjectsV2 b, DeleteObjects b keys]))))))"

definition default_cancellation :: handler where
  "default_cancellation aws resource_id region =
     ([], Inr [(''error'', JStr ''Cancellation not implemented for this service type''),
               (''service_id'', jopt resource_id),
               (''region'', JStr region),
               (''action'', JStr ''not_implemented'')])"

definition cancellation_functions :: "string \<rightharpoonup> handler" where
  "cancellation_functions = map_of
     [(''Amazon OpenSearch Service'', cancel_opensearch),
      (''OpenSearch Serverless'', cancel_opensearch_serverless),
      (''Amazon Redshift'', cancel_redshift),
      (''AWS Lambda'', cancel_lambda),
      (''Amazon EC2'', cancel_ec2),
      (''Amazon RDS'', cancel_rds),
      (''Amazon S3'', cancel_s3)]"

record cancel_result =
  cr_success :: bool
  cr_message :: string
  cr_details :: "jdict option"
  cr_error_code :: "string option"

text \<open>
  The ways out of \<open>cancel_service\<close>: the details of the handler are wrapped in a success;
  an exception becomes a failure with the client error's code, or with \<open>UnknownError\<close>.
\<close>

definition wrap_outcome :: "string \<Rightarrow> exn + jdict \<Rightarrow> cancel_result" where
  "wrap_outcome service_name outcome =
     (case outcome of
        Inr result \<Rightarrow>
          \<lparr>cr_success = True,
            cr_message = ''Successfully initiated cancellation for '' @ service_name,
            cr_details = Some result, cr_error_code = None\<rparr>
      | Inl e \<Rightarrow>
          \<lparr>cr_success = False,
            cr_message = ''Error canceling '' @ service_name @ '': '' @ exn_str e,
            cr_details = None,
            cr_error_code = Some (case e of
                                    ClientError code message operation_name retries \<Rightarrow> code
                                  | OtherError text \<Rightarrow> ''UnknownError'')\<rparr>)"

text \<open>
  \<open>cancel_service\<close>: the handler of the name, or the default one, is called on the
  session of the region. The calls issued are returned next to the result.
\<close>

definition cancel_service :: "aws \<Rightarrow> string \<Rightarrow> string option \<Rightarrow> string \<Rightarrow> api_call list \<times> cancel_result" where
  "cancel_service aws service_name service_id region =
     (let cancel_func = (case cancellation_functions service_name of
                           Some f \<Rightarrow> f | None \<Rightarrow> default_cancellation);
          (issued, outcome) = cancel_func aws service_id region
      in (issued, wrap_outcome service_name outcome))"

text \<open>
  The client a handler builds, and the listing call it issues when no resource id is
  given.
\<close>

definition client_name :: "string \<rightharpoonup> string" where
  "client_name = map_of
     [(''Amazon OpenSearch Service'', ''opensearch''),
      (''OpenSearch Serverless'', ''opensearchserverless''),
      (''Amazon Redshift'', ''redshift''),
      (''AWS Lambda'', ''lambda''),
      (''Amazon EC2'', ''ec2''),
      (''Amazon RDS'', ''rds''),
      (''Amazon S3'', ''s3'')]"

definition listing_call :: "string \<rightharpoonup> api_call" where
  "listing_call = map_of
     [(''Amazon OpenSearch Service'', ListDomainNames),
      (''OpenSearch Serverless'', ListCollections),
      (''Amazon Redshift'', DescribeClusters),
      (''AWS Lambda'', ListFunctions),
      (''Amazon EC2'', DescribeInstances),
      (''Amazon RDS'', DescribeDBInstances),
      (''Amazon S3'', ListBuckets)]"

text \<open>The client of the service is built in the region.\<close>

definition client_built :: "aws \<Rightarrow> string \<Rightarrow> string \<Rightarrow> bool" where
  "client_built aws region service_name =
     (case client_name service_name of
        None \<Rightarrow> False
      | Some service \<Rightarrow> new_client aws region service = None)"

text \<open>
  The listing returns and its response can be read: only the OpenSearch handler indexes
  the response (\<open>domains["DomainNames"]\<close>) instead of using \<open>get\<close>.
\<close>

definition listing_returns :: "aws \<Rightarrow> string \<Rightarrow> bool" where
  "listing_returns aws service_name =
     (case listing_call service_name of
        None \<Rightarrow> False
      | Some c \<Rightarrow>
          (case call aws c of
             Inl e \<Rightarrow> False
           | Inr response \<Rightarrow>
               (service_name = ''Amazon OpenSearch Service''
                  \<longrightarrow> map_of response ''DomainNames'' \<noteq> None)))"

section \<open>Cancellation ledger\<close>

text \<open>
  \<open>AWSServiceCancelerBoto3\<close> (\<open>scripts/aws_service_canceler_boto3.py\<close>). The ledger maps
  a service name to its record; it lives in \<open>self.canceled_services\<close> and in the JSON
  file. A file is missing, holds a ledger, or cannot be read or parsed.
\<close>

record cancellation =
  status :: string
  canceled_on :: string
  cost_at_cancellation :: amount

type_synonym ledger = "string \<rightharpoonup> cancellation"

datatype ledger_file = Missing | Holds ledger | Unreadable

record canceler =
  canceled_services :: ledger
  services_file :: ledger_file

text \<open>
  \<open>load_canceled_services\<close>: the content of the file, and the empty dictionary when the
  file is missing or reading it raises.
\<close>

fun load_canceled_services :: "ledger_file \<Rightarrow> ledger" where
  "load_canceled_services Missing = Map.empty"
| "load_canceled_services (Holds l) = l"
| "load_canceled_services Unreadable = Map.empty"

text \<open>
  What the file system does with the write of \<open>save_canceled_services\<close>: the file is
  written; \<open>open\<close> raises and the file stays as it was; or \<open>json.dump\<close> raises after
  \<open>open(..., 'w')\<close> has truncated the file. The exception is caught and printed.
\<close>

datatype write_outcome = Written | OpenFailed | DumpFailed

fun save_canceled_services :: "write_outcome \<Rightarrow> canceler \<Rightarrow> canceler" where
  "save_canceled_services Written c = c\<lparr>services_file := Holds (canceled_services c)\<rparr>"
| "save_canceled_services OpenFailed c = c"
| "save_canceled_services DumpFailed c = c\<lparr>services_file := Unreadable\<rparr>"

text \<open>
  \<open>record_service_cancellation\<close>; \<open>today\<close> is \<open>datetime.now().strftime('%Y-%m-%d')\<close>.
\<close>

definition record_service_cancellation ::
    "string \<Rightarrow> write_outcome \<Rightarrow> string \<Rightarrow> amount \<Rightarrow> canceler \<Rightarrow> canceler" where
  "record_service_cancellation today w service_name cost c =
     save_canceled_services w
       (c\<lparr>canceled_services := (canceled_services c)(service_name \<mapsto>
             \<lparr>status = ''Canceled'', canceled_on = today, cost_at_cancellation = cost\<rparr>)\<rparr>)"

section \<open>Properties of the string functions\<close>

lemma startswith_iff: "startswith s p \<longleftrightarrow> (\<exists>ys. s = p @ ys)"
  by (induction s p rule: startswith.induct) auto

lemma py_in_iff: "py_in sub s \<longleftrightarrow> (\<exists>xs ys. s = xs @ sub @ ys)"
proof (induction s)
  case Nil
  then show ?case by auto
next
  case (Cons c cs)
  show ?case
  proof
    assume "py_in sub (c # cs)"
    then consider "startswith (c # cs) sub" | "py_in sub cs" by auto
    then show "\<exists>xs ys. c # cs = xs @ sub @ ys"
    proof cases
      case 1
      then obtain ys where "c # cs = sub @ ys" by (auto simp: startswith_iff)
      then have "c # cs = [] @ sub @ ys" by simp
      then show ?thesis by blast
    next
      case 2
      then obtain xs ys where "cs = xs @ sub @ ys" using Cons.IH by blast
      then have "c # cs = (c # xs) @ sub @ ys" by simp
      then show ?thesis by blast
    qed
  next
    assume "\<exists>xs ys. c # cs = xs @ sub @ ys"
    then obtain xs ys where e: "c # cs = xs @ sub @ ys" by blast
    show "py_in sub (c # cs)"
    proof (cases xs)
      case Nil
      with e have "startswith (c # cs) sub" by (auto simp: startswith_iff)
      then show ?thesis by simp
    next
      case (Cons x xs')
      with e have "cs = xs' @ sub @ ys" by simp
      then have "py_in sub cs" using Cons.IH by blast
      then show ?thesis by simp
    qed
  qed
qed

lemma py_in_trans: "py_in a b \<Longrightarrow> py_in b s \<Longrightarrow> py_in a s"
  unfolding py_in_iff by (metis append.assoc)

lemma serverless_ocu: "py_in ''ServerlessOCU'' u \<Longrightarrow> py_in ''Serverless'' u"
  by (rule py_in_trans[of _ "''ServerlessOCU''"]) simp_all

lemma py_split_nonempty: "py_split sep s \<noteq> []"
  by (induction s) (auto split: list.splits)

lemma hd_py_split: "hd (py_split sep s) = takeWhile (\<lambda>c. c \<noteq> sep) s"
  using py_split_nonempty by (induction s) (auto split: list.splits)

lemma py_in_char: "py_in [c] s \<longleftrightarrow> c \<in> set s"
  by (induction s) auto

section \<open>Properties of the resolver\<close>

lemma region_map_nonempty: "region_map c = Some r \<Longrightarrow> r \<noteq> []"
  by (auto simp: region_map_def split: if_splits)

lemma region_map_empty: "region_map [] = None"
  by (simp add: region_map_def)

lemma scan_group_serverless:
  "is_serverless (scan_group st g) \<longleftrightarrow>
     is_serverless st \<or> (billed_opensearch g \<and> py_in ''Serverless'' (ug_usage_type g))"
  using serverless_ocu[of "ug_usage_type g"]
  by (auto simp: scan_group_def Let_def split: option.splits)

lemma foldl_scan_serverless:
  "is_serverless (foldl scan_group st gs) \<longleftrightarrow>
     is_serverless st \<or> (\<exists>g\<in>set gs. billed_opensearch g \<and> py_in ''Serverless'' (ug_usage_type g))"
  by (induction gs arbitrary: st) (auto simp: scan_group_serverless)

lemma scan_group_region:
  "primary_region (scan_group st g) =
     (if truthy (primary_region st) then primary_region st
      else if region_hit g then group_region g
      else primary_region st)"
  by (auto simp: scan_group_def group_region_def region_hit_def Let_def region_map_empty
           split: option.splits)

lemma group_region_truthy: "group_region g = Some r \<Longrightarrow> truthy (Some r)"
  by (auto simp: group_region_def region_map_nonempty split: option.splits)

text \<open>The loop keeps the region of the first group that names one.\<close>

lemma foldl_scan_region:
  "primary_region (foldl scan_group st gs) =
     (if truthy (primary_region st) then primary_region st
      else (case List.find region_hit gs of
              None \<Rightarrow> primary_region st
            | Some g \<Rightarrow> group_region g))"
proof (induction gs arbitrary: st)
  case Nil
  then show ?case by simp
next
  case (Cons g gs)
  show ?case
  proof (cases "truthy (primary_region st)")
    case True
    then show ?thesis by (simp add: Cons.IH scan_group_region)
  next
    case False
    show ?thesis
    proof (cases "region_hit g")
      case True
      then obtain r where r: "group_region g = Some r" by (auto simp: region_hit_def)
      have "truthy (primary_region (scan_group st g))"
        using False True r group_region_truthy[OF r] by (simp add: scan_group_region)
      then show ?thesis using False True by (simp add: Cons.IH scan_group_region)
    next
      case nb: False
      then have eq: "primary_region (scan_group st g) = primary_region st"
        by (auto simp: scan_group_region)
      have "List.find region_hit (g # gs) = List.find region_hit gs"
        using nb by simp
      then show ?thesis using False by (simp only: foldl_Cons Cons.IH eq if_False)
    qed
  qed
qed

lemma resolved_region_find:
  "resolved_region groups =
     (case List.find region_hit groups of
        None \<Rightarrow> ''us-east-1''
      | Some g \<Rightarrow> the (group_region g))"
proof (cases "List.find region_hit groups")
  case None
  then show ?thesis
    by (simp add: resolved_region_def scan_groups_def foldl_scan_region scan_init_def)
next
  case (Some g)
  then have "group_region g \<noteq> None" by (auto simp: find_Some_iff region_hit_def)
  then obtain r where r: "group_region g = Some r" by auto
  then have "r \<noteq> []" using group_region_truthy by fastforce
  with Some r show ?thesis
    by (simp add: resolved_region_def scan_groups_def foldl_scan_region scan_init_def)
qed

text \<open>
  The method returns a link whenever the response has a first period; the link points
  into the resolved region, and at the serverless collections exactly when the serverless
  flag is set.
\<close>

lemma billing_source_uses_resolution:
  "resolved_serverless groups \<Longrightarrow>
     \<exists>l. find_exact_opensearch_billing_source find_recent (Inr (groups # rest)) = Some l
       \<and> link_url l = generate_direct_console_url (resolved_region groups)
                        ''opensearch-serverless'' ''collections''"
  "\<not> resolved_serverless groups \<Longrightarrow>
     \<exists>l resource_id.
       find_exact_opensearch_billing_source find_recent (Inr (groups # rest)) = Some l
       \<and> link_url l = generate_direct_console_url (resolved_region groups)
                        ''opensearch'' resource_id"
proof -
  assume "resolved_serverless groups"
  then show "\<exists>l. find_exact_opensearch_billing_source find_recent (Inr (groups # rest)) = Some l
       \<and> link_url l = generate_direct_console_url (resolved_region groups)
                        ''opensearch-serverless'' ''collections''"
    by (simp add: find_exact_opensearch_billing_source_def Let_def)
next
  assume "\<not> resolved_serverless groups"
  then show "\<exists>l resource_id.
       find_exact_opensearch_billing_source find_recent (Inr (groups # rest)) = Some l
       \<and> link_url l = generate_direct_console_url (resolved_region groups)
                        ''opensearch'' resource_id"
    by (cases "find_recent (resolved_region groups)")
       (auto simp add: find_exact_opensearch_billing_source_def Let_def)
qed

text \<open>
  C2, as the code has it. The region the resolver outputs is the region named by the first
  group, in the order of the response, that passes the loop's guard and whose region code
  is in the table; it is \<open>us-east-1\<close> when there is no such group. The costs of the
  groups play no part beyond the guard.
\<close>

theorem resolved_region_first_hit:
  "resolved_region groups =
     (case List.find region_hit groups of
        None \<Rightarrow> ''us-east-1''
      | Some g \<Rightarrow> the (group_region g))"
  by (rule resolved_region_find)

theorem resolved_region_first_hit_witness:
  "resolved_region
     [\<lparr>ug_service = ''Amazon OpenSearch Service'', ug_usage_type = ''Global-Requests'', ug_cost = 7\<rparr>,
      \<lparr>ug_service = ''Amazon OpenSearch Service'', ug_usage_type = ''EUW1-SearchOCU'', ug_cost = 2\<rparr>,
      \<lparr>ug_service = ''Amazon OpenSearch Service'', ug_usage_type = ''USW2-SearchOCU'', ug_cost = 9\<rparr>]
   = ''eu-west-1''"
proof -
  have "List.find region_hit
     [\<lparr>ug_service = ''Amazon OpenSearch Service'', ug_usage_type = ''Global-Requests'', ug_cost = 7\<rparr>,
      \<lparr>ug_service = ''Amazon OpenSearch Service'', ug_usage_type = ''EUW1-SearchOCU'', ug_cost = 2\<rparr>,
      \<lparr>ug_service = ''Amazon OpenSearch Service'', ug_usage_type = ''USW2-SearchOCU'', ug_cost = 9\<rparr>]
    = Some \<lparr>ug_service = ''Amazon OpenSearch Service'', ug_usage_type = ''EUW1-SearchOCU'', ug_cost = 2\<rparr>"
    by code_simp
  moreover have "group_region
      \<lparr>ug_service = ''Amazon OpenSearch Service'', ug_usage_type = ''EUW1-SearchOCU'', ug_cost = 2\<rparr>
      = Some ''eu-west-1''"
    by code_simp
  ultimately show ?thesis
    by (simp only: resolved_region_first_hit option.case option.sel)
qed

text \<open>
  C2, as stated, fails: with one dollar billed in \<open>us-east-1\<close> first and a hundred in
  \<open>us-west-2\<close> after it, the resolver outputs \<open>us-east-1\<close>, whose share is the smaller.
\<close>

theorem largest_share_counterexample:
  "resolved_region
     [\<lparr>ug_service = ''Amazon OpenSearch Service'', ug_usage_type = ''USE1-SearchOCU'', ug_cost = 1\<rparr>,
      \<lparr>ug_service = ''Amazon OpenSearch Service'', ug_usage_type = ''USW2-SearchOCU'', ug_cost = 100\<rparr>]
     = ''us-east-1''
   \<and> region_share
     [\<lparr>ug_service = ''Amazon OpenSearch Service'', ug_usage_type = ''USE1-SearchOCU'', ug_cost = 1\<rparr>,
      \<lparr>ug_service = ''Amazon OpenSearch Service'', ug_usage_type = ''USW2-SearchOCU'', ug_cost = 100\<rparr>]
     ''us-east-1''
   < region_share
     [\<lparr>ug_service = ''Amazon OpenSearch Service'', ug_usage_type = ''USE1-SearchOCU'', ug_cost = 1\<rparr>,
      \<lparr>ug_service = ''Amazon OpenSearch Service'', ug_usage_type = ''USW2-SearchOCU'', ug_cost = 100\<rparr>]
     ''us-west-2''"
  by code_simp

text \<open>
  C3, as the code has it, for a response with the single group \<open>g\<close>. When the usage type
  contains a hyphen, its first token is in the table and the group passes the guard, the
  resolver outputs the region of the token. When the usage type has no hyphen, or its
  first token is not in the table, the resolver outputs \<open>us-east-1\<close>. The output has no
  confidence field: the default is not told apart from a resolved \<open>us-east-1\<close>.
\<close>

theorem region_of_usage_type:
  "(billed_opensearch g \<and> py_in ''-'' (ug_usage_type g)
      \<and> region_map (hd (py_split CHR ''-'' (ug_usage_type g))) = Some r
    \<longrightarrow> resolved_region [g] = r)
   \<and> (\<not> py_in ''-'' (ug_usage_type g)
        \<or> region_map (hd (py_split CHR ''-'' (ug_usage_type g))) = None
    \<longrightarrow> resolved_region [g] = ''us-east-1'')"
proof (intro conjI impI)
  assume a: "billed_opensearch g \<and> py_in ''-'' (ug_usage_type g)
      \<and> region_map (hd (py_split CHR ''-'' (ug_usage_type g))) = Some r"
  then have gr: "group_region g = Some r"
    by (simp add: group_region_def region_code_def)
  with a have "region_hit g" by (simp add: region_hit_def)
  then show "resolved_region [g] = r"
    using gr by (simp add: resolved_region_find)
next
  assume "\<not> py_in ''-'' (ug_usage_type g)
        \<or> region_map (hd (py_split CHR ''-'' (ug_usage_type g))) = None"
  then have "group_region g = None"
    by (auto simp: group_region_def region_code_def)
  then have "\<not> region_hit g" by (simp add: region_hit_def)
  then show "resolved_region [g] = ''us-east-1''"
    by (simp add: resolved_region_find)
qed

theorem region_of_usage_type_witness:
  "resolved_region
     [\<lparr>ug_service = ''Amazon OpenSearch Service'',
       ug_usage_type = ''USW2-SearchOCU-t2.small.search'', ug_cost = 5\<rparr>] = ''us-west-2''
   \<and> resolved_region
     [\<lparr>ug_service = ''Amazon OpenSearch Service'',
       ug_usage_type = ''APS1-SearchOCU'', ug_cost = 5\<rparr>] = ''us-east-1''"
proof -
  have 1: "billed_opensearch \<lparr>ug_service = ''Amazon OpenSearch Service'',
       ug_usage_type = ''USW2-SearchOCU-t2.small.search'', ug_cost = 5\<rparr>
     \<and> py_in ''-'' (ug_usage_type \<lparr>ug_service = ''Amazon OpenSearch Service'',
       ug_usage_type = ''USW2-SearchOCU-t2.small.search'', ug_cost = 5\<rparr>)
     \<and> region_map (hd (py_split CHR ''-'' (ug_usage_type \<lparr>ug_service = ''Amazon OpenSearch Service'',
       ug_usage_type = ''USW2-SearchOCU-t2.small.search'', ug_cost = 5\<rparr>))) = Some ''us-west-2''"
    by code_simp
  have 2: "\<not> py_in ''-'' (ug_usage_type \<lparr>ug_service = ''Amazon OpenSearch Service'',
       ug_usage_type = ''APS1-SearchOCU'', ug_cost = 5\<rparr>)
     \<or> region_map (hd (py_split CHR ''-'' (ug_usage_type \<lparr>ug_service = ''Amazon OpenSearch Service'',
       ug_usage_type = ''APS1-SearchOCU'', ug_cost = 5\<rparr>))) = None"
    by code_simp
  from 1 2 show ?thesis
    using region_of_usage_type[of "\<lparr>ug_service = ''Amazon OpenSearch Service'',
             ug_usage_type = ''USW2-SearchOCU-t2.small.search'', ug_cost = 5\<rparr>" "''us-west-2''"]
          region_of_usage_type[of "\<lparr>ug_service = ''Amazon OpenSearch Service'',
             ug_usage_type = ''APS1-SearchOCU'', ug_cost = 5\<rparr>" "''us-west-2''"]
    by blast
qed

text \<open>
  C3, as stated, fails: the first token of the usage type \<open>USW2\<close> is in the table, with
  the region \<open>us-west-2\<close>, but the usage type has no hyphen and the resolver outputs the
  default.
\<close>

theorem region_prefix_counterexample:
  "billed_opensearch
     \<lparr>ug_service = ''Amazon OpenSearch Service'', ug_usage_type = ''USW2'', ug_cost = 5\<rparr>
   \<and> region_map (hd (py_split CHR ''-'' ''USW2'')) = Some ''us-west-2''
   \<and> resolved_region
     [\<lparr>ug_service = ''Amazon OpenSearch Service'', ug_usage_type = ''USW2'', ug_cost = 5\<rparr>]
     = ''us-east-1''"
  by code_simp

text \<open>
  C4. The serverless flag the resolver outputs is true exactly when one of the groups it
  analyses (those that pass the loop's guard) has a usage type that contains
  \<open>Serverless\<close>, compared case-sensitively. In particular, on an input as the contract
  of the resolver describes it (every group an OpenSearch group with a cost above 0.01),
  the flag is true exactly when the usage type of some group contains \<open>Serverless\<close>.
\<close>

theorem serverless_iff_substring:
  "(resolved_serverless groups \<longleftrightarrow>
      (\<exists>g\<in>set groups. billed_opensearch g \<and> py_in ''Serverless'' (ug_usage_type g)))
   \<and> ((\<forall>g\<in>set groups. billed_opensearch g) \<longrightarrow>
        (resolved_serverless groups \<longleftrightarrow>
           (\<exists>g\<in>set groups. py_in ''Serverless'' (ug_usage_type g))))"
  by (auto simp add: resolved_serverless_def scan_groups_def foldl_scan_serverless scan_init_def)

theorem serverless_iff_substring_witness:
  "resolved_serverless
     [\<lparr>ug_service = ''Amazon OpenSearch Service'',
       ug_usage_type = ''USE1-ServerlessIndexingOCU'', ug_cost = 3\<rparr>]
   \<and> \<not> resolved_serverless
     [\<lparr>ug_service = ''Amazon OpenSearch Service'',
       ug_usage_type = ''USE1-SearchOCU-t2.small.search'', ug_cost = 3\<rparr>,
      \<lparr>ug_service = ''Amazon OpenSearch Service'',
       ug_usage_type = ''USE1-serverlessOCU'', ug_cost = 3\<rparr>]"
proof -
  have a: "\<forall>g\<in>set [\<lparr>ug_service = ''Amazon OpenSearch Service'',
       ug_usage_type = ''USE1-ServerlessIndexingOCU'', ug_cost = 3\<rparr>]. billed_opensearch g"
    by code_simp
  have b: "\<forall>g\<in>set [\<lparr>ug_service = ''Amazon OpenSearch Service'',
       ug_usage_type = ''USE1-SearchOCU-t2.small.search'', ug_cost = 3\<rparr>,
      \<lparr>ug_service = ''Amazon OpenSearch Service'',
       ug_usage_type = ''USE1-serverlessOCU'', ug_cost = 3\<rparr>]. billed_opensearch g"
    by code_simp
  have c: "py_in ''Serverless'' ''USE1-ServerlessIndexingOCU''
     \<and> \<not> py_in ''Serverless'' ''USE1-SearchOCU-t2.small.search''
     \<and> \<not> py_in ''Serverless'' ''USE1-serverlessOCU''"
    by code_simp
  from a c have 1: "resolved_serverless
     [\<lparr>ug_service = ''Amazon OpenSearch Service'',
       ug_usage_type = ''USE1-ServerlessIndexingOCU'', ug_cost = 3\<rparr>]"
    using serverless_iff_substring[of "[\<lparr>ug_service = ''Amazon OpenSearch Service'',
       ug_usage_type = ''USE1-ServerlessIndexingOCU'', ug_cost = 3\<rparr>]"]
    by simp
  from b c have 2: "\<not> resolved_serverless
     [\<lparr>ug_service = ''Amazon OpenSearch Service'',
       ug_usage_type = ''USE1-SearchOCU-t2.small.search'', ug_cost = 3\<rparr>,
      \<lparr>ug_service = ''Amazon OpenSearch Service'',
       ug_usage_type = ''USE1-serverlessOCU'', ug_cost = 3\<rparr>]"
    using serverless_iff_substring[of "[\<lparr>ug_service = ''Amazon OpenSearch Service'',
       ug_usage_type = ''USE1-SearchOCU-t2.small.search'', ug_cost = 3\<rparr>,
      \<lparr>ug_service = ''Amazon OpenSearch Service'',
       ug_usage_type = ''USE1-serverlessOCU'', ug_cost = 3\<rparr>]"]
    by simp
  from 1 2 show ?thesis by blast
qed

section \<open>Properties of the cost queries\<close>

text \<open>The filter of the analysis keeps the order the services were given in.\<close>

lemma service_analyze_costs_sorted:
  "sorted_wrt (\<lambda>a b. cost_of a \<ge> cost_of b) services
   \<Longrightarrow> sorted_wrt (\<lambda>a b. cost_of a \<ge> cost_of b) (service_analyze_costs cost_of services threshold)"
  by (simp add: service_analyze_costs_def sorted_wrt_filter)

lemma sort_desc_sorted: "sorted_wrt (\<lambda>a b. key a \<ge> key b) (sort_desc key xs)"
proof -
  have "sorted (map key (sort_key key (rev xs)))" by simp
  then have "sorted_wrt (\<lambda>a b. key a \<le> key b) (sort_key key (rev xs))"
    by (simp add: sorted_map)
  then show ?thesis
    by (simp add: sort_desc_def sorted_wrt_rev)
qed

text \<open>
  C1. The cost query returns the three services Lambda (10.50), S3 (5.25) and Skill
  Builder (29.00), in this order. With the threshold 10.0, \<open>analyze_costs\<close> returns the
  Skill Builder entry and then the Lambda entry, and nothing else. The descending order
  is made by \<open>get_service_costs\<close>; the analysis of \<open>api.py\<close> and the one of the domain
  service both filter its list.
\<close>

theorem analyze_costs_scenario:
  "api_analyze_costs
     (Inr [[\<lparr>cg_key = ''AWS Lambda'', cg_amount = 1050 / 100\<rparr>,
            \<lparr>cg_key = ''Amazon S3'', cg_amount = 525 / 100\<rparr>,
            \<lparr>cg_key = ''AWS Skill Builder'', cg_amount = 29\<rparr>]]) 10
   = [\<lparr>se_service = ''AWS Skill Builder'', se_cost = 29,
       se_details = ''Subscription'', se_status = ''Active''\<rparr>,
      \<lparr>se_service = ''AWS Lambda'', se_cost = 1050 / 100,
       se_details = ''Usage charges'', se_status = ''Active''\<rparr>]
   \<and> service_analyze_costs se_cost
     (monitor_get_service_costs
        (Inr [[\<lparr>cg_key = ''AWS Lambda'', cg_amount = 1050 / 100\<rparr>,
               \<lparr>cg_key = ''Amazon S3'', cg_amount = 525 / 100\<rparr>,
               \<lparr>cg_key = ''AWS Skill Builder'', cg_amount = 29\<rparr>]])) 10
   = [\<lparr>se_service = ''AWS Skill Builder'', se_cost = 29,
       se_details = ''Subscription'', se_status = ''Active''\<rparr>,
      \<lparr>se_service = ''AWS Lambda'', se_cost = 1050 / 100,
       se_details = ''Usage charges'', se_status = ''Active''\<rparr>]"
  by code_simp

text \<open>
  What \<open>main\<close> of \<open>cli.py\<close> returns for the two commands: 0 for \<open>report\<close> whenever
  \<open>generate_report\<close> returns; for \<open>analyze\<close>, 0 when a service costs more than the
  threshold and 1 when none does. An exception of either command leaves \<open>main\<close>.
\<close>

lemma cli_main_results:
  "cli_main env (Report days output open_report)
     = (case report_outcome env of Inl e \<Rightarrow> Inl e | Inr report_path \<Rightarrow> Inr 0)"
  "cli_main env (Analyze threshold days_back)
     = (case analyze_costs_call env threshold days_back of
          Inl e \<Rightarrow> Inl e
        | Inr result \<Rightarrow>
            Inr (if \<exists>service\<in>set result. se_cost service > threshold then 0 else 1))"
proof -
  show "cli_main env (Report days output open_report)
     = (case report_outcome env of Inl e \<Rightarrow> Inl e | Inr report_path \<Rightarrow> Inr 0)"
    by (simp add: cli_main_def)
next
  have "\<And>result. analyze_costs_call env threshold days_back = Inr result \<Longrightarrow>
          (result \<noteq> []) = (\<exists>service\<in>set result. se_cost service > threshold)"
    by (auto simp: analyze_costs_call_def api_analyze_costs_def filter_empty_conv
             split: option.splits sum.splits)
  then show "cli_main env (Analyze threshold days_back)
     = (case analyze_costs_call env threshold days_back of
          Inl e \<Rightarrow> Inl e
        | Inr result \<Rightarrow>
            Inr (if \<exists>service\<in>set result. se_cost service > threshold then 0 else 1))"
    by (simp add: cli_main_def split: sum.splits)
qed

text \<open>A number of days that \<open>timedelta\<close> rejects leaves \<open>main\<close> as an exception.\<close>

lemma cli_main_days_overflow:
  "ce_client_failure env = None \<Longrightarrow> \<bar>days_back\<bar> > 999999999 \<Longrightarrow>
   \<exists>e. cli_main env (Analyze threshold days_back) = Inl e"
  by (simp add: cli_main_def analyze_costs_call_def get_date_range_def)

text \<open>
  \<open>CLIAdapter.run\<close> returns 1 for a command exactly when the body of its \<open>try\<close> raised,
  and 0 otherwise; an analysis that finds no service above the threshold prints one line
  and returns 0.
\<close>

lemma cli_adapter_run_results:
  "cli_adapter_run generated browser_failure line_of analysis (Report days output open_flag)
     = (if \<exists>e. report_body generated browser_failure open_flag = Inl e then 1 else 0)"
  "cli_adapter_run generated browser_failure line_of analysis (Analyze threshold days_back)
     = (if \<exists>e. analyze_body line_of analysis = Inl e then 1 else 0)"
  by (simp_all add: cli_adapter_run_def split: sum.splits)

lemma cli_adapter_run_nothing_above:
  "cli_adapter_run generated browser_failure line_of (Inr []) (Analyze threshold days_back) = 0"
  by (simp add: cli_adapter_run_def analyze_body_def)


text \<open>
  C8, as the code has it. When a cost-and-usage call raises, \<open>get_service_costs\<close> and
  \<open>get_daily_costs\<close> of the adapter return the empty list (and leave the service paths as
  they were), while \<open>get_service_costs\<close> and \<open>get_daily_costs\<close> of the monitor return
  their sample data.
\<close>

theorem upstream_error_results:
  "adapter_get_service_costs env paths (Inl e) response_by_record = ([], paths)
   \<and> adapter_get_service_costs env paths response_by_service (Inl e) = ([], paths)
   \<and> adapter_get_daily_costs fmt2 (Inl e) periods = []
   \<and> adapter_get_daily_costs fmt2 totals (Inl e) = []
   \<and> monitor_get_service_costs (Inl e) = sample_service_costs
   \<and> monitor_get_daily_costs date_of days_back (Inl e)
       = map (\<lambda>i. (date_of i, sample_daily_cost i, ''AWS Services'')) (rev [1..days_back])"
  by (simp add: adapter_get_service_costs_def adapter_get_daily_costs_def
        monitor_get_service_costs_def monitor_get_daily_costs_def
      split: sum.splits)

text \<open>
  C8, as stated, fails for the monitor: when the call raises, its \<open>get_service_costs\<close>
  returns seven sample services, the first of them Skill Builder at 58 dollars.
\<close>

theorem monitor_sample_counterexample:
  "monitor_get_service_costs (Inl (ClientError ''AccessDeniedException'' ''not authorized'' ''GetCostAndUsage'' None)) \<noteq> []
   \<and> length (monitor_get_service_costs
        (Inl (ClientError ''AccessDeniedException'' ''not authorized'' ''GetCostAndUsage'' None))) = 7
   \<and> se_cost (hd (monitor_get_service_costs
        (Inl (ClientError ''AccessDeniedException'' ''not authorized'' ''GetCostAndUsage'' None)))) = 58"
  by (simp add: monitor_get_service_costs_def sample_service_costs_def)

section \<open>Properties of the cancellation dispatcher\<close>

lemma dom_cancellation_functions:
  "dom cancellation_functions =
     {''Amazon OpenSearch Service'', ''OpenSearch Serverless'', ''Amazon Redshift'',
      ''AWS Lambda'', ''Amazon EC2'', ''Amazon RDS'', ''Amazon S3''}"
  by (simp add: cancellation_functions_def dom_map_of_conv_image_fst)

text \<open>
  C5. For a service name that is none of the seven mapped ones, \<open>cancel_service\<close> issues
  no call and returns a success whose details carry the action \<open>not_implemented\<close>; the
  result has no error code.
\<close>

theorem unmapped_service_not_implemented:
  assumes "service_name \<notin>
     {''Amazon OpenSearch Service'', ''OpenSearch Serverless'', ''Amazon Redshift'',
      ''AWS Lambda'', ''Amazon EC2'', ''Amazon RDS'', ''Amazon S3''}"
  shows "cancel_service aws service_name service_id region =
     ([], \<lparr>cr_success = True,
           cr_message = ''Successfully initiated cancellation for '' @ service_name,
           cr_details = Some [(''error'', JStr ''Cancellation not implemented for this service type''),
                              (''service_id'', jopt service_id),
                              (''region'', JStr region),
                              (''action'', JStr ''not_implemented'')],
           cr_error_code = None\<rparr>)"
proof -
  from assms have "service_name \<notin> dom cancellation_functions"
    by (simp only: dom_cancellation_functions not_False_eq_True)
  then have "cancellation_functions service_name = None" by blast
  then show ?thesis
    by (simp add: cancel_service_def default_cancellation_def wrap_outcome_def)
qed

theorem unmapped_service_not_implemented_witness:
  "cr_success (snd (cancel_service
      \<lparr>new_client = (\<lambda>region service. Some (OtherError ''offline'')),
       call = (\<lambda>c. Inl (OtherError ''offline''))\<rparr>
      ''Unsupported Service'' (Some ''resource-id'') ''us-east-1''))
   \<and> map_of (the (cr_details (snd (cancel_service
      \<lparr>new_client = (\<lambda>region service. Some (OtherError ''offline'')),
       call = (\<lambda>c. Inl (OtherError ''offline''))\<rparr>
      ''Unsupported Service'' (Some ''resource-id'') ''us-east-1'')))) ''action''
     = Some (JStr ''not_implemented'')"
proof -
  have "''Unsupported Service'' \<notin>
     {''Amazon OpenSearch Service'', ''OpenSearch Serverless'', ''Amazon Redshift'',
      ''AWS Lambda'', ''Amazon EC2'', ''Amazon RDS'', ''Amazon S3''}"
    by simp
  from unmapped_service_not_implemented[OF this,
        of "\<lparr>new_client = (\<lambda>region service. Some (OtherError ''offline'')),
             call = (\<lambda>c. Inl (OtherError ''offline''))\<rparr>"
        "Some ''resource-id''" "''us-east-1''"]
  show ?thesis by simp
qed

text \<open>The seven handlers, called without a resource id.\<close>

lemma list_only_handlers:
  assumes "\<not> truthy service_id"
  shows "cancel_opensearch aws service_id region =
           with_client aws region ''opensearch''
             ([ListDomainNames],
              case call aws ListDomainNames of
                Inl e \<Rightarrow> Inl e
              | Inr domains \<Rightarrow>
                  (case map_of domains ''DomainNames'' of
                     None \<Rightarrow> Inl (OtherError (quoted ''DomainNames''))
                   | Some names \<Rightarrow> Inr [(''domains'', names), (''action'', JStr ''list_only'')]))"
    and "cancel_opensearch_serverless aws service_id region =
           with_client aws region ''opensearchserverless''
             ([ListCollections],
              case call aws ListCollections of
                Inl e \<Rightarrow> Inl e
              | Inr r \<Rightarrow> Inr [(''collections'', jget r ''collectionSummaries'' (JList [])),
                              (''action'', JStr ''list_only'')])"
    and "cancel_redshift aws service_id region =
           with_client aws region ''redshift''
             ([DescribeClusters],
              case call aws DescribeClusters of
                Inl e \<Rightarrow> Inl e
              | Inr r \<Rightarrow> Inr [(''clusters'', jget r ''Clusters'' (JList [])),
                              (''action'', JStr ''list_only'')])"
    and "cancel_lambda aws service_id region =
           with_client aws region ''lambda''
             ([ListFunctions],
              case call aws ListFunctions of
                Inl e \<Rightarrow> Inl e
              | Inr r \<Rightarrow> Inr [(''functions'', jget r ''Functions'' (JList [])),
                              (''action'', JStr ''list_only'')])"
    and "cancel_ec2 aws service_id region =
           with_client aws region ''ec2''
             ([DescribeInstances],
              case call aws DescribeInstances of
                Inl e \<Rightarrow> Inl e
              | Inr r \<Rightarrow> Inr [(''instances'', jget r ''Reservations'' (JList [])),
                              (''action'', JStr ''list_only'')])"
    and "cancel_rds aws service_id region =
           with_client aws region ''rds''
             ([DescribeDBInstances],
              case call aws DescribeDBInstances of
                Inl e \<Rightarrow> Inl e
              | Inr r \<Rightarrow> Inr [(''db_instances'', jget r ''DBInstances'' (JList [])),
                              (''action'', JStr ''list_only'')])"
    and "cancel_s3 aws service_id region =
           with_client aws region ''s3''
             ([ListBuckets],
              case call aws ListBuckets of
                Inl e \<Rightarrow> Inl e
              | Inr r \<Rightarrow> Inr [(''buckets'', jget r ''Buckets'' (JList [])),
                              (''action'', JStr ''list_only'')])"
  using assms
  by (simp_all add: cancel_opensearch_def cancel_opensearch_serverless_def cancel_redshift_def
        cancel_lambda_def cancel_ec2_def cancel_rds_def cancel_s3_def
      split: sum.splits option.splits)

text \<open>
  C9, as the code has it. For each of the seven mapped service names and a resource id
  that is \<open>None\<close> or empty, \<open>cancel_service\<close> never issues a delete or terminate call: it
  issues the listing call of the service and nothing else when the client of the service
  is built, and no call at all when building the client raises. The result reports
  success exactly when the client is built and the listing returns (and, for OpenSearch,
  its response has \<open>DomainNames\<close>); it then has the message
  \<open>Successfully initiated cancellation for ...\<close> and details with the action
  \<open>list_only\<close>. Otherwise the result reports a failure with an error code and no details.
\<close>

theorem missing_id_lists_only:
  assumes "service_name \<in>
     {''Amazon OpenSearch Service'', ''OpenSearch Serverless'', ''Amazon Redshift'',
      ''AWS Lambda'', ''Amazon EC2'', ''Amazon RDS'', ''Amazon S3''}"
    and "\<not> truthy service_id"
  shows "fst (cancel_service aws service_name service_id region)
           = (if client_built aws region service_name
              then [the (listing_call service_name)] else [])
     \<and> (\<forall>c\<in>set (fst (cancel_service aws service_name service_id region)). \<not> destructive c)
     \<and> (cr_success (snd (cancel_service aws service_name service_id region))
          \<longleftrightarrow> client_built aws region service_name \<and> listing_returns aws service_name)
     \<and> (cr_success (snd (cancel_service aws service_name service_id region)) \<longrightarrow>
          cr_message (snd (cancel_service aws service_name service_id region))
            = ''Successfully initiated cancellation for '' @ service_name
          \<and> (\<exists>d. cr_details (snd (cancel_service aws service_name service_id region)) = Some d
                  \<and> map_of d ''action'' = Some (JStr ''list_only'')))
     \<and> (\<not> cr_success (snd (cancel_service aws service_name service_id region)) \<longrightarrow>
          cr_details (snd (cancel_service aws service_name service_id region)) = None
          \<and> cr_error_code (snd (cancel_service aws service_name service_id region)) \<noteq> None)"
proof -
  note h = list_only_handlers[OF assms(2), of aws region]
  note defs = cancel_service_def cancellation_functions_def with_client_def client_built_def
    client_name_def listing_call_def listing_returns_def wrap_outcome_def
  from assms(1) have names:
      "service_name = ''Amazon OpenSearch Service'' \<or> service_name = ''OpenSearch Serverless''
       \<or> service_name = ''Amazon Redshift'' \<or> service_name = ''AWS Lambda''
       \<or> service_name = ''Amazon EC2'' \<or> service_name = ''Amazon RDS''
       \<or> service_name = ''Amazon S3''"
    by simp
  show ?thesis
    using names
  proof (elim disjE)
    assume "service_name = ''Amazon OpenSearch Service''"
    then show ?thesis
      by (simp add: defs h(1) split: sum.splits option.splits exn.splits)
  next
    assume "service_name = ''OpenSearch Serverless''"
    then show ?thesis
      by (simp add: defs h(2) split: sum.splits option.splits exn.splits)
  next
    assume "service_name = ''Amazon Redshift''"
    then show ?thesis
      by (simp add: defs h(3) split: sum.splits option.splits exn.splits)
  next
    assume "service_name = ''AWS Lambda''"
    then show ?thesis
      by (simp add: defs h(4) split: sum.splits option.splits exn.splits)
  next
    assume "service_name = ''Amazon EC2''"
    then show ?thesis
      by (simp add: defs h(5) split: sum.splits option.splits exn.splits)
  next
    assume "service_name = ''Amazon RDS''"
    then show ?thesis
      by (simp add: defs h(6) split: sum.splits option.splits exn.splits)
  next
    assume "service_name = ''Amazon S3''"
    then show ?thesis
      by (simp add: defs h(7) split: sum.splits option.splits exn.splits)
  qed
qed

theorem missing_id_lists_only_witness:
  "fst (cancel_service
          \<lparr>new_client = (\<lambda>region service. None),
           call = (\<lambda>c. Inr [(''Functions'', JList [JStr ''resize-images''])])\<rparr>
          ''AWS Lambda'' None ''us-east-1'') = [ListFunctions]
   \<and> cr_success (snd (cancel_service
          \<lparr>new_client = (\<lambda>region service. None),
           call = (\<lambda>c. Inr [(''Functions'', JList [JStr ''resize-images''])])\<rparr>
          ''AWS Lambda'' None ''us-east-1''))
   \<and> cr_message (snd (cancel_service
          \<lparr>new_client = (\<lambda>region service. None),
           call = (\<lambda>c. Inr [(''Functions'', JList [JStr ''resize-images''])])\<rparr>
          ''AWS Lambda'' None ''us-east-1''))
       = ''Successfully initiated cancellation for AWS Lambda''
   \<and> map_of (the (cr_details (snd (cancel_service
          \<lparr>new_client = (\<lambda>region service. None),
           call = (\<lambda>c. Inr [(''Functions'', JList [JStr ''resize-images''])])\<rparr>
          ''AWS Lambda'' None ''us-east-1'')))) ''action'' = Some (JStr ''list_only'')
   \<and> fst (cancel_service
          \<lparr>new_client = (\<lambda>region service. Some (OtherError ''invalid region'')),
           call = (\<lambda>c. Inr [(''Functions'', JList [JStr ''resize-images''])])\<rparr>
          ''AWS Lambda'' (Some []) ''us east 1'') = []
   \<and> \<not> cr_success (snd (cancel_service
          \<lparr>new_client = (\<lambda>region service. Some (OtherError ''invalid region'')),
           call = (\<lambda>c. Inr [(''Functions'', JList [JStr ''resize-images''])])\<rparr>
          ''AWS Lambda'' (Some []) ''us east 1''))
   \<and> cr_details (snd (cancel_service
          \<lparr>new_client = (\<lambda>region service. Some (OtherError ''invalid region'')),
           call = (\<lambda>c. Inr [(''Functions'', JList [JStr ''resize-images''])])\<rparr>
          ''AWS Lambda'' (Some []) ''us east 1'')) = None"
proof -
  have a: "''AWS Lambda'' \<in>
     {''Amazon OpenSearch Service'', ''OpenSearch Serverless'', ''Amazon Redshift'',
      ''AWS Lambda'', ''Amazon EC2'', ''Amazon RDS'', ''Amazon S3''}"
    by simp
  have b: "\<not> truthy None" "\<not> truthy (Some [])" by simp_all
  have c: "listing_returns
             \<lparr>new_client = (\<lambda>region service. None),
           call = (\<lambda>c. Inr [(''Functions'', JList [JStr ''resize-images''])])\<rparr>
             ''AWS Lambda''"
    by (simp add: listing_returns_def listing_call_def)
  have d: "the (listing_call ''AWS Lambda'') = ListFunctions"
    by (simp add: listing_call_def)
  have e: "client_built
             \<lparr>new_client = (\<lambda>region service. None),
           call = (\<lambda>c. Inr [(''Functions'', JList [JStr ''resize-images''])])\<rparr>
             ''us-east-1'' ''AWS Lambda''"
    by (simp add: client_built_def client_name_def)
  have f: "\<not> client_built
             \<lparr>new_client = (\<lambda>region service. Some (OtherError ''invalid region'')),
           call = (\<lambda>c. Inr [(''Functions'', JList [JStr ''resize-images''])])\<rparr>
             ''us east 1'' ''AWS Lambda''"
    by (simp add: client_built_def client_name_def)
  from missing_id_lists_only[OF a b(1),
        of "\<lparr>new_client = (\<lambda>region service. None),
           call = (\<lambda>c. Inr [(''Functions'', JList [JStr ''resize-images''])])\<rparr>"
        "''us-east-1''"] c d e
  have 1: "fst (cancel_service
          \<lparr>new_client = (\<lambda>region service. None),
           call = (\<lambda>c. Inr [(''Functions'', JList [JStr ''resize-images''])])\<rparr>
          ''AWS Lambda'' None ''us-east-1'') = [ListFunctions]
   \<and> cr_success (snd (cancel_service
          \<lparr>new_client = (\<lambda>region service. None),
           call = (\<lambda>c. Inr [(''Functions'', JList [JStr ''resize-images''])])\<rparr>
          ''AWS Lambda'' None ''us-east-1''))
   \<and> cr_message (snd (cancel_service
          \<lparr>new_client = (\<lambda>region service. None),
           call = (\<lambda>c. Inr [(''Functions'', JList [JStr ''resize-images''])])\<rparr>
          ''AWS Lambda'' None ''us-east-1''))
       = ''Successfully initiated cancellation for AWS Lambda''
   \<and> map_of (the (cr_details (snd (cancel_service
          \<lparr>new_client = (\<lambda>region service. None),
           call = (\<lambda>c. Inr [(''Functions'', JList [JStr ''resize-images''])])\<rparr>
          ''AWS Lambda'' None ''us-east-1'')))) ''action'' = Some (JStr ''list_only'')"
    by auto
  from missing_id_lists_only[OF a b(2),
        of "\<lparr>new_client = (\<lambda>region service. Some (OtherError ''invalid region'')),
           call = (\<lambda>c. Inr [(''Functions'', JList [JStr ''resize-images''])])\<rparr>"
        "''us east 1''"] f
  have 2: "fst (cancel_service
          \<lparr>new_client = (\<lambda>region service. Some (OtherError ''invalid region'')),
           call = (\<lambda>c. Inr [(''Functions'', JList [JStr ''resize-images''])])\<rparr>
          ''AWS Lambda'' (Some []) ''us east 1'') = []
   \<and> \<not> cr_success (snd (cancel_service
          \<lparr>new_client = (\<lambda>region service. Some (OtherError ''invalid region'')),
           call = (\<lambda>c. Inr [(''Functions'', JList [JStr ''resize-images''])])\<rparr>
          ''AWS Lambda'' (Some []) ''us east 1''))
   \<and> cr_details (snd (cancel_service
          \<lparr>new_client = (\<lambda>region service. Some (OtherError ''invalid region'')),
           call = (\<lambda>c. Inr [(''Functions'', JList [JStr ''resize-images''])])\<rparr>
          ''AWS Lambda'' (Some []) ''us east 1'')) = None"
    by auto
  from 1 2 show ?thesis by (intro conjI) (elim conjE, assumption)+
qed

text \<open>
  C9, as stated, fails: the client is built, the listing call of Lambda is refused with
  a client error, and the result of \<open>cancel_service\<close> without a resource id reports a
  failure with the error code of the refusal.
\<close>

theorem listing_refused_counterexample:
  "snd (cancel_service
          \<lparr>new_client = (\<lambda>region service. None),
           call = (\<lambda>c. Inl (ClientError ''AccessDeniedException''
                     ''User is not authorized to perform: lambda:ListFunctions''
                     ''ListFunctions'' None))\<rparr>
          ''AWS Lambda'' None ''us-east-1'')
   = \<lparr>cr_success = False,
       cr_message = ''Error canceling AWS Lambda: An error occurred (AccessDeniedException) when calling the ListFunctions operation: User is not authorized to perform: lambda:ListFunctions'',
       cr_details = None,
       cr_error_code = Some ''AccessDeniedException''\<rparr>"
  by (simp add: cancel_service_def cancellation_functions_def cancel_lambda_def
        with_client_def wrap_outcome_def)

section \<open>Properties of the cancellation ledger\<close>

lemma record_in_memory:
  "canceled_services (record_service_cancellation today w service_name cost c) =
     (canceled_services c)(service_name \<mapsto>
        \<lparr>status = ''Canceled'', canceled_on = today, cost_at_cancellation = cost\<rparr>)"
  by (cases w) (simp_all add: record_service_cancellation_def)

lemma record_file:
  "services_file (record_service_cancellation today w service_name cost c) =
     (case w of
        Written \<Rightarrow> Holds ((canceled_services c)(service_name \<mapsto>
             \<lparr>status = ''Canceled'', canceled_on = today, cost_at_cancellation = cost\<rparr>))
      | OpenFailed \<Rightarrow> services_file c
      | DumpFailed \<Rightarrow> Unreadable)"
  by (cases w) (simp_all add: record_service_cancellation_def)

text \<open>
  C6, as the code has it. When the write of the file succeeds, loading the ledger right
  after recording a cancellation yields, for that service name, an entry with the status
  \<open>Canceled\<close>, the date of the recording and the cost passed in.
\<close>

theorem record_then_load:
  "w = Written \<Longrightarrow>
   load_canceled_services
     (services_file (record_service_cancellation today w service_name cost c)) service_name
   = Some \<lparr>status = ''Canceled'', canceled_on = today, cost_at_cancellation = cost\<rparr>"
  by (simp add: record_file)

theorem record_then_load_witness:
  "load_canceled_services
     (services_file (record_service_cancellation ''2025-04-21'' Written ''Amazon OpenSearch Service''
        (1965 / 100) \<lparr>canceled_services = Map.empty, services_file = Missing\<rparr>))
     ''Amazon OpenSearch Service''
   = Some \<lparr>status = ''Canceled'', canceled_on = ''2025-04-21'', cost_at_cancellation = 1965 / 100\<rparr>"
  using record_then_load[of Written "''2025-04-21''" "''Amazon OpenSearch Service''" "1965 / 100"
          "\<lparr>canceled_services = Map.empty, services_file = Missing\<rparr>"]
  by simp

text \<open>
  C6, as stated, fails: the file cannot be opened for writing, \<open>save_canceled_services\<close>
  swallows the exception, and the ledger loaded right after has no entry for the service.
\<close>

theorem failed_write_counterexample:
  "load_canceled_services
     (services_file (record_service_cancellation ''2025-04-21'' OpenFailed ''Amazon OpenSearch Service''
        (1965 / 100) \<lparr>canceled_services = Map.empty, services_file = Missing\<rparr>))
     ''Amazon OpenSearch Service''
   = None"
  by (simp add: record_service_cancellation_def)

text \<open>
  C10, as the code has it. In the ledger the canceler holds in memory,
  \<open>record_service_cancellation\<close> sets the entry of the service name and leaves the entry
  of every other name as it was, whatever becomes of the write. In the ledger file: when
  the write succeeds, the entry of the service name is the new one and the entry of every
  other name is the one the canceler held in memory, so it is unchanged for each name on
  which the file agreed with the canceler before the call; when the file cannot be
  opened, the file is unchanged; when the dump fails, the file loads as an empty ledger.
\<close>

theorem record_changes_one_entry:
  "(\<forall>other. other \<noteq> service_name \<longrightarrow>
       canceled_services (record_service_cancellation today w service_name cost c) other
         = canceled_services c other)
   \<and> canceled_services (record_service_cancellation today w service_name cost c) service_name
       = Some \<lparr>status = ''Canceled'', canceled_on = today, cost_at_cancellation = cost\<rparr>
   \<and> (w = Written \<longrightarrow>
        load_canceled_services
          (services_file (record_service_cancellation today w service_name cost c)) service_name
          = Some \<lparr>status = ''Canceled'', canceled_on = today, cost_at_cancellation = cost\<rparr>
        \<and> (\<forall>other. other \<noteq> service_name \<longrightarrow>
              load_canceled_services
                (services_file (record_service_cancellation today w service_name cost c)) other
              = canceled_services c other)
        \<and> (\<forall>other. other \<noteq> service_name
              \<and> load_canceled_services (services_file c) other = canceled_services c other \<longrightarrow>
              load_canceled_services
                (services_file (record_service_cancellation today w service_name cost c)) other
              = load_canceled_services (services_file c) other))
   \<and> (w = OpenFailed \<longrightarrow>
        services_file (record_service_cancellation today w service_name cost c) = services_file c)
   \<and> (w = DumpFailed \<longrightarrow>
        load_canceled_services
          (services_file (record_service_cancellation today w service_name cost c)) = Map.empty)"
  by (cases w) (simp_all add: record_in_memory record_file)

theorem record_changes_one_entry_witness:
  "canceled_services
     (record_service_cancellation ''2025-04-21'' Written ''Amazon Bedrock'' (1 / 8)
        \<lparr>canceled_services =
            [''AWS Skill Builder'' \<mapsto>
               \<lparr>status = ''Canceled'', canceled_on = ''2025-04-15'', cost_at_cancellation = 29\<rparr>],
          services_file = Holds
            [''AWS Skill Builder'' \<mapsto>
               \<lparr>status = ''Canceled'', canceled_on = ''2025-04-15'', cost_at_cancellation = 29\<rparr>]\<rparr>)
     ''AWS Skill Builder''
   = Some \<lparr>status = ''Canceled'', canceled_on = ''2025-04-15'', cost_at_cancellation = 29\<rparr>
   \<and> load_canceled_services (services_file
     (record_service_cancellation ''2025-04-21'' Written ''Amazon Bedrock'' (1 / 8)
        \<lparr>canceled_services =
            [''AWS Skill Builder'' \<mapsto>
               \<lparr>status = ''Canceled'', canceled_on = ''2025-04-15'', cost_at_cancellation = 29\<rparr>],
          services_file = Holds
            [''AWS Skill Builder'' \<mapsto>
               \<lparr>status = ''Canceled'', canceled_on = ''2025-04-15'', cost_at_cancellation = 29\<rparr>]\<rparr>))
     ''AWS Skill Builder''
   = Some \<lparr>status = ''Canceled'', canceled_on = ''2025-04-15'', cost_at_cancellation = 29\<rparr>
   \<and> load_canceled_services (services_file
     (record_service_cancellation ''2025-04-21'' Written ''Amazon Bedrock'' (1 / 8)
        \<lparr>canceled_services =
            [''AWS Skill Builder'' \<mapsto>
               \<lparr>status = ''Canceled'', canceled_on = ''2025-04-15'', cost_at_cancellation = 29\<rparr>],
          services_file = Holds
            [''AWS Skill Builder'' \<mapsto>
               \<lparr>status = ''Canceled'', canceled_on = ''2025-04-15'', cost_at_cancellation = 29\<rparr>]\<rparr>))
     ''Amazon Bedrock''
   = Some \<lparr>status = ''Canceled'', canceled_on = ''2025-04-21'', cost_at_cancellation = 1 / 8\<rparr>
   \<and> load_canceled_services (services_file
     (record_service_cancellation ''2025-04-21'' OpenFailed ''Amazon Bedrock'' (1 / 8)
        \<lparr>canceled_services =
            [''AWS Skill Builder'' \<mapsto>
               \<lparr>status = ''Canceled'', canceled_on = ''2025-04-15'', cost_at_cancellation = 29\<rparr>],
          services_file = Holds
            [''AWS Skill Builder'' \<mapsto>
               \<lparr>status = ''Canceled'', canceled_on = ''2025-04-15'', cost_at_cancellation = 29\<rparr>]\<rparr>))
     ''AWS Skill Builder''
   = Some \<lparr>status = ''Canceled'', canceled_on = ''2025-04-15'', cost_at_cancellation = 29\<rparr>
   \<and> load_canceled_services (services_file
     (record_service_cancellation ''2025-04-21'' DumpFailed ''Amazon Bedrock'' (1 / 8)
        \<lparr>canceled_services =
            [''AWS Skill Builder'' \<mapsto>
               \<lparr>status = ''Canceled'', canceled_on = ''2025-04-15'', cost_at_cancellation = 29\<rparr>],
          services_file = Holds
            [''AWS Skill Builder'' \<mapsto>
               \<lparr>status = ''Canceled'', canceled_on = ''2025-04-15'', cost_at_cancellation = 29\<rparr>]\<rparr>))
     ''AWS Skill Builder''
   = None"
proof -
  have ne: "''AWS Skill Builder'' \<noteq> ''Amazon Bedrock''" by simp
  have agree: "load_canceled_services (services_file
        \<lparr>canceled_services =
            [''AWS Skill Builder'' \<mapsto>
               \<lparr>status = ''Canceled'', canceled_on = ''2025-04-15'', cost_at_cancellation = 29\<rparr>],
          services_file = Holds
            [''AWS Skill Builder'' \<mapsto>
               \<lparr>status = ''Canceled'', canceled_on = ''2025-04-15'', cost_at_cancellation = 29\<rparr>]\<rparr>)
        ''AWS Skill Builder''
      = canceled_services
        \<lparr>canceled_services =
            [''AWS Skill Builder'' \<mapsto>
               \<lparr>status = ''Canceled'', canceled_on = ''2025-04-15'', cost_at_cancellation = 29\<rparr>],
          services_file = Holds
            [''AWS Skill Builder'' \<mapsto>
               \<lparr>status = ''Canceled'', canceled_on = ''2025-04-15'', cost_at_cancellation = 29\<rparr>]\<rparr>
        ''AWS Skill Builder''"
    by simp
  from ne agree
    record_changes_one_entry[of "''Amazon Bedrock''" "''2025-04-21''" Written "1 / 8"
      "\<lparr>canceled_services =
            [''AWS Skill Builder'' \<mapsto>
               \<lparr>status = ''Canceled'', canceled_on = ''2025-04-15'', cost_at_cancellation = 29\<rparr>],
          services_file = Holds
            [''AWS Skill Builder'' \<mapsto>
               \<lparr>status = ''Canceled'', canceled_on = ''2025-04-15'', cost_at_cancellation = 29\<rparr>]\<rparr>"]
  have 1: "canceled_services
     (record_service_cancellation ''2025-04-21'' Written ''Amazon Bedrock'' (1 / 8)
        \<lparr>canceled_services =
            [''AWS Skill Builder'' \<mapsto>
               \<lparr>status = ''Canceled'', canceled_on = ''2025-04-15'', cost_at_cancellation = 29\<rparr>],
          services_file = Holds
            [''AWS Skill Builder'' \<mapsto>
               \<lparr>status = ''Canceled'', canceled_on = ''2025-04-15'', cost_at_cancellation = 29\<rparr>]\<rparr>)
     ''AWS Skill Builder''
   = Some \<lparr>status = ''Canceled'', canceled_on = ''2025-04-15'', cost_at_cancellation = 29\<rparr>
   \<and> load_canceled_services (services_file
     (record_service_cancellation ''2025-04-21'' Written ''Amazon Bedrock'' (1 / 8)
        \<lparr>canceled_services =
            [''AWS Skill Builder'' \<mapsto>
               \<lparr>status = ''Canceled'', canceled_on = ''2025-04-15'', cost_at_cancellation = 29\<rparr>],
          services_file = Holds
            [''AWS Skill Builder'' \<mapsto>
               \<lparr>status = ''Canceled'', canceled_on = ''2025-04-15'', cost_at_cancellation = 29\<rparr>]\<rparr>))
     ''AWS Skill Builder''
   = Some \<lparr>status = ''Canceled'', canceled_on = ''2025-04-15'', cost_at_cancellation = 29\<rparr>
   \<and> load_canceled_services (services_file
     (record_service_cancellation ''2025-04-21'' Written ''Amazon Bedrock'' (1 / 8)
        \<lparr>canceled_services =
            [''AWS Skill Builder'' \<mapsto>
               \<lparr>status = ''Canceled'', canceled_on = ''2025-04-15'', cost_at_cancellation = 29\<rparr>],
          services_file = Holds
            [''AWS Skill Builder'' \<mapsto>
               \<lparr>status = ''Canceled'', canceled_on = ''2025-04-15'', cost_at_cancellation = 29\<rparr>]\<rparr>))
     ''Amazon Bedrock''
   = Some \<lparr>status = ''Canceled'', canceled_on = ''2025-04-21'', cost_at_cancellation = 1 / 8\<rparr>"
    by simp
  from record_changes_one_entry[of "''Amazon Bedrock''" "''2025-04-21''" OpenFailed "1 / 8"
      "\<lparr>canceled_services =
            [''AWS Skill Builder'' \<mapsto>
               \<lparr>status = ''Canceled'', canceled_on = ''2025-04-15'', cost_at_cancellation = 29\<rparr>],
          services_file = Holds
            [''AWS Skill Builder'' \<mapsto>
               \<lparr>status = ''Canceled'', canceled_on = ''2025-04-15'', cost_at_cancellation = 29\<rparr>]\<rparr>"]
  have 2: "load_canceled_services (services_file
     (record_service_cancellation ''2025-04-21'' OpenFailed ''Amazon Bedrock'' (1 / 8)
        \<lparr>canceled_services =
            [''AWS Skill Builder'' \<mapsto>
               \<lparr>status = ''Canceled'', canceled_on = ''2025-04-15'', cost_at_cancellation = 29\<rparr>],
          services_file = Holds
            [''AWS Skill Builder'' \<mapsto>
               \<lparr>status = ''Canceled'', canceled_on = ''2025-04-15'', cost_at_cancellation = 29\<rparr>]\<rparr>))
     ''AWS Skill Builder''
   = Some \<lparr>status = ''Canceled'', canceled_on = ''2025-04-15'', cost_at_cancellation = 29\<rparr>"
    by simp
  from record_changes_one_entry[of "''Amazon Bedrock''" "''2025-04-21''" DumpFailed "1 / 8"
      "\<lparr>canceled_services =
            [''AWS Skill Builder'' \<mapsto>
               \<lparr>status = ''Canceled'', canceled_on = ''2025-04-15'', cost_at_cancellation = 29\<rparr>],
          services_file = Holds
            [''AWS Skill Builder'' \<mapsto>
               \<lparr>status = ''Canceled'', canceled_on = ''2025-04-15'', cost_at_cancellation = 29\<rparr>]\<rparr>"]
  have 3: "load_canceled_services (services_file
     (record_service_cancellation ''2025-04-21'' DumpFailed ''Amazon Bedrock'' (1 / 8)
        \<lparr>canceled_services =
            [''AWS Skill Builder'' \<mapsto>
               \<lparr>status = ''Canceled'', canceled_on = ''2025-04-15'', cost_at_cancellation = 29\<rparr>],
          services_file = Holds
            [''AWS Skill Builder'' \<mapsto>
               \<lparr>status = ''Canceled'', canceled_on = ''2025-04-15'', cost_at_cancellation = 29\<rparr>]\<rparr>))
     ''AWS Skill Builder''
   = None"
    by simp
  from 1 2 3 show ?thesis by (intro conjI) (elim conjE, assumption)+
qed

text \<open>
  C10, as stated, fails for the ledger file: it holds the entry of Skill Builder, the dump
  of the write for Bedrock fails after the file was truncated, the exception is
  swallowed, and the file no longer yields the entry of Skill Builder, while the canceler
  still holds it in memory.
\<close>

theorem failed_dump_counterexample:
  "load_canceled_services (services_file
        \<lparr>canceled_services =
            [''AWS Skill Builder'' \<mapsto>
               \<lparr>status = ''Canceled'', canceled_on = ''2025-04-15'', cost_at_cancellation = 29\<rparr>],
          services_file = Holds
            [''AWS Skill Builder'' \<mapsto>
               \<lparr>status = ''Canceled'', canceled_on = ''2025-04-15'', cost_at_cancellation = 29\<rparr>]\<rparr>)
     ''AWS Skill Builder''
   = Some \<lparr>status = ''Canceled'', canceled_on = ''2025-04-15'', cost_at_cancellation = 29\<rparr>
   \<and> load_canceled_services (services_file
     (record_service_cancellation ''2025-04-21'' DumpFailed ''Amazon Bedrock'' (1 / 8)
        \<lparr>canceled_services =
            [''AWS Skill Builder'' \<mapsto>
               \<lparr>status = ''Canceled'', canceled_on = ''2025-04-15'', cost_at_cancellation = 29\<rparr>],
          services_file = Holds
            [''AWS Skill Builder'' \<mapsto>
               \<lparr>status = ''Canceled'', canceled_on = ''2025-04-15'', cost_at_cancellation = 29\<rparr>]\<rparr>))
     ''AWS Skill Builder''
   = None"
  by (simp add: record_service_cancellation_def)

end
